theory Spec2Isabelle
  imports Main "HOL-Library.Monad_Syntax" "HOL-Library.Word" "HOL-Library.Sublist"
begin

section \<open>The encrypted history store (\<open>RawDatabaseImpl\<close>)\<close>

text \<open>
  A shallow embedding of \<open>RawDatabaseImpl\<close>, the single-writer encrypted store of the
  messaging client. The storage engine (SQLCipher), the file system (\<open>QFile\<close>) and the
  key-derivation primitive (toxencryptsave) are libraries outside the repository: they are
  a parameter of the model, a record of functions over an abstract world \<open>'w\<close>. Every
  method runs on the worker thread (a call from another thread is re-dispatched there and
  blocks), so the model is sequential state passing. A value \<open>None\<close> stands for a call
  that does not return (a loop of the source that never ends).
\<close>

subsection \<open>Values, queries and transactions\<close>

text \<open>What \<open>sqlite3_column_type\<close> and the column accessors report for one column.\<close>

datatype column = ColInteger int | ColText string | ColNull | ColOther string

text \<open>The \<open>QVariant\<close> values \<open>extractData\<close> builds.\<close>

datatype variant = VInt int | VText string | VBlob string | VNull

type_synonym row = "variant list"

text \<open>
  \<open>RawDatabase::Query\<close>: statement text, parameter blobs, and whether the two callbacks
  are set. A callback is modelled by recording its invocation as an event. The compiled
  statements of a query (\<open>query.statements\<close>, empty whenever a query is submitted) are a
  local of the execution below.
\<close>

record Query =
  query :: string
  blobs :: "string list"
  rowCallback :: bool
  insertCallback :: bool

definition mkQuery :: "string \<Rightarrow> Query" where
  "mkQuery text = \<lparr>query = text, blobs = [], rowCallback = False, insertCallback = False\<rparr>"

text \<open>
  \<open>Transaction\<close>: the two flags are pointers to atomics owned by the submitter;
  \<open>None\<close> is the null pointer and \<open>Some b\<close> a pointer to an atomic holding \<open>b\<close>.
\<close>

record Transaction =
  queries :: "Query list"
  success_flag :: "bool option"
  done_flag :: "bool option"

datatype SqlCipherParams = p3_0 | halfUpgradedTo4 | p4_0

datatype level = Debug | Info | Warning | Critical

type_synonym log_entry = "level \<times> string list"

text \<open>What happened while a transaction ran, in order.\<close>

datatype 's event =
    Prepared string int
  | TooFewParams
  | Bound nat int
  | Stepped 's int
  | RowCallback row
  | InsertCallback int

abbreviation SQLITE_OK :: int where "SQLITE_OK \<equiv> 0"
abbreviation SQLITE_ERROR :: int where "SQLITE_ERROR \<equiv> 1"
abbreviation SQLITE_CONSTRAINT :: int where "SQLITE_CONSTRAINT \<equiv> 19"
abbreviation SQLITE_MISUSE :: int where "SQLITE_MISUSE \<equiv> 21"
abbreviation SQLITE_ROW :: int where "SQLITE_ROW \<equiv> 100"
abbreviation SQLITE_DONE :: int where "SQLITE_DONE \<equiv> 101"

subsection \<open>The libraries the store is built on\<close>

text \<open>
  \<open>sqlite3_prepare_v2\<close> returns the result code, the statement, the number of bytes of
  the text it consumed (so that \<open>compileTail\<close> advances by that much) and the new world.
  \<open>sqlite3_open_v2\<close> returns the result code and whether it stored a handle (it usually
  does, also on failure). \<open>fromUtf8\<close> is \<open>QString::fromUtf8\<close>: the characters of the
  decoded text in order, each character written as the bytes of its UTF-8 encoding (what
  does not decode comes out as the replacement character). \<open>indeterminate\<close> is what a
  local \<open>int64_t\<close> holds that was never assigned.
\<close>

record ('w, 's) engine =
  sqlite3_prepare_v2 :: "'w \<Rightarrow> string \<Rightarrow> int \<times> 's \<times> nat \<times> 'w"
  sqlite3_bind_parameter_count :: "'s \<Rightarrow> nat"
  sqlite3_bind_blob :: "'w \<Rightarrow> 's \<Rightarrow> nat \<Rightarrow> string \<Rightarrow> int \<times> 'w"
  sqlite3_column_count :: "'s \<Rightarrow> nat"
  sqlite3_step :: "'w \<Rightarrow> 's \<Rightarrow> int \<times> 'w"
  sqlite3_column :: "'w \<Rightarrow> 's \<Rightarrow> nat \<Rightarrow> column"
  sqlite3_last_insert_rowid :: "'w \<Rightarrow> int"
  sqlite3_finalize :: "'w \<Rightarrow> 's \<Rightarrow> 'w"
  sqlite3_errcode :: "'w \<Rightarrow> int"
  sqlite3_errmsg :: "'w \<Rightarrow> string"
  sqlite3_open_v2 :: "'w \<Rightarrow> string \<Rightarrow> int \<times> bool \<times> 'w"
  sqlite3_create_function :: "'w \<Rightarrow> string \<Rightarrow> int \<times> 'w"
  sqlite3_close :: "'w \<Rightarrow> int \<times> 'w"
  file_exists :: "'w \<Rightarrow> string \<Rightarrow> bool"
  file_remove :: "'w \<Rightarrow> string \<Rightarrow> bool \<times> 'w"
  file_rename :: "'w \<Rightarrow> string \<Rightarrow> string \<Rightarrow> bool \<times> 'w"
  file_copy :: "'w \<Rightarrow> string \<Rightarrow> string \<Rightarrow> bool \<times> 'w"
  tox_pass_key_derive_with_salt :: "string \<Rightarrow> string \<Rightarrow> string"
  fromUtf8 :: "string \<Rightarrow> string list"
  indeterminate :: "'w \<Rightarrow> int"

subsection \<open>Text helpers\<close>

function show_nat :: "nat \<Rightarrow> string" where
  "show_nat n = (if n < 10 then [char_of (48 + n)] else show_nat (n div 10) @ [char_of (48 + n mod 10)])"
  by pat_completeness auto
termination
  by (relation "measure id") auto

definition show_int :: "int \<Rightarrow> string" where
  "show_int i = (if i < 0 then CHR ''-'' # show_nat (nat (- i)) else show_nat (nat i))"

abbreviation quote :: char where "quote \<equiv> CHR 0x27"
abbreviation dquote :: char where "dquote \<equiv> CHR 0x22"

subsection \<open>\<open>anonymizeQuery\<close>\<close>

text \<open>
  A \<open>QString\<close> is the list of its characters, a character being the bytes of its UTF-8
  encoding; the text that reaches the log is their concatenation. \<open>ascii\<close> is the
  character of an ASCII letter of the source.
\<close>

type_synonym qchar = string

definition ascii :: "char \<Rightarrow> qchar" where
  "ascii c = [c]"

definition qstr :: "string \<Rightarrow> qchar list" where
  "qstr s = map ascii s"

definition toUtf8 :: "qchar list \<Rightarrow> string" where
  "toUtf8 s = concat s"

text \<open>
  The first regular expression, \<open>chat.public_key='[A-F0-9]{64}'\<close>, is a sequence of 82
  one-character atoms: \<open>pk_class i c\<close> says that the character \<open>c\<close> fits atom \<open>i\<close>.
  The dot fits every character but a newline.
\<close>

definition is_upper_hex :: "qchar \<Rightarrow> bool" where
  "is_upper_hex c = (c \<in> set (qstr ''ABCDEF0123456789''))"

definition is_decimal :: "qchar \<Rightarrow> bool" where
  "is_decimal c = (c \<in> set (qstr ''0123456789''))"

definition is_digit :: "char \<Rightarrow> bool" where
  "is_digit c = (c \<in> set ''0123456789'')"

definition pk_class :: "nat \<Rightarrow> qchar \<Rightarrow> bool" where
  "pk_class i c =
     (if i < 4 then c = ascii (''chat'' ! i)
      else if i = 4 then c \<noteq> ascii (CHR 0x0A)
      else if i < 16 then c = ascii (''public_key='' ! (i - 5))
      else if i = 16 then c = ascii quote
      else if i < 81 then is_upper_hex c
      else c = ascii quote)"

fun fits :: "(nat \<Rightarrow> qchar \<Rightarrow> bool) \<Rightarrow> nat \<Rightarrow> qchar list \<Rightarrow> bool" where
  "fits cls i [] = True"
| "fits cls i (c # cs) = (cls i c \<and> fits cls (Suc i) cs)"

text \<open>A matcher returns the length of the match that starts at the head of the text.\<close>

definition match_public_key :: "qchar list \<Rightarrow> nat option" where
  "match_public_key s =
     (if 82 \<le> length s \<and> fits pk_class 0 (take 82 s) then Some 82 else None)"

text \<open>
  The second one, \<open>timestamp BETWEEN \d{5,} AND \d{5,}\<close>: a run of digits is greedy, and
  since the text after the first run has to start with a space, the first run is all the
  digits there are; \<open>\d\<close> is an ASCII digit.
\<close>

definition match_timestamp :: "qchar list \<Rightarrow> nat option" where
  "match_timestamp s =
     (if take 18 s = qstr ''timestamp BETWEEN '' then
        (let ds1 = takeWhile is_decimal (drop 18 s);
             r1 = drop (18 + length ds1) s
         in if 5 \<le> length ds1 \<and> take 5 r1 = qstr '' AND '' then
              (let ds2 = takeWhile is_decimal (drop 5 r1)
               in if 5 \<le> length ds2 then Some (18 + length ds1 + 5 + length ds2) else None)
            else None)
      else None)"

text \<open>
  \<open>QString::replace(QRegularExpression, QString)\<close>: every match found scanning from the
  left is replaced, and the scan goes on behind the match.
\<close>

function replace_matches :: "('a list \<Rightarrow> nat option) \<Rightarrow> 'a list \<Rightarrow> 'a list \<Rightarrow> 'a list" where
  "replace_matches m after [] = []"
| "replace_matches m after (c # cs) =
     (case m (c # cs) of
        None \<Rightarrow> c # replace_matches m after cs
      | Some n \<Rightarrow> if n = 0 then c # replace_matches m after cs
                  else after @ replace_matches m after (drop n (c # cs)))"
  by pat_completeness auto
termination
  by (relation "measure (\<lambda>(m, after, s). length s)") auto

definition public_key_placeholder :: "qchar list" where
  "public_key_placeholder =
     qstr (''char.public_key='' @ [quote] @ ''<HERE IS PUBLIC KEY>'' @ [quote])"

definition timestamp_placeholder :: "qchar list" where
  "timestamp_placeholder = qstr ''timestamp BETWEEN <START HERE> AND <END HERE>''"

definition anonymizeQuery :: "('w, 's) engine \<Rightarrow> string \<Rightarrow> qchar list" where
  "anonymizeQuery eng q =
     replace_matches match_timestamp timestamp_placeholder
       (replace_matches match_public_key public_key_placeholder (fromUtf8 eng q))"


subsection \<open>\<open>compileAndExecute\<close>\<close>

text \<open>
  The state of one run of \<open>compileAndExecute\<close>: the world, the statements compiled so
  far (\<open>process\<close> finalizes them afterwards), the events and the log lines written.
\<close>

record ('w, 's) exec_state =
  x_world :: 'w
  x_stmts :: "'s list"
  x_events :: "'s event list"
  x_log :: "log_entry list"

definition extractData :: "('w, 's) engine \<Rightarrow> 'w \<Rightarrow> 's \<Rightarrow> nat \<Rightarrow> variant" where
  "extractData eng w stmt col =
     (case sqlite3_column eng w stmt col of
        ColInteger n \<Rightarrow> VInt n
      | ColText s \<Rightarrow> VText s
      | ColNull \<Rightarrow> VNull
      | ColOther b \<Rightarrow> VBlob b)"

text \<open>The loop binding the parameters of one statement, \<open>i\<close> running over \<open>[0..<nParams]\<close>.\<close>

fun bindLoop :: "('w, 's) engine \<Rightarrow> Query \<Rightarrow> 's \<Rightarrow> nat \<Rightarrow> nat list \<Rightarrow>
    ('w, 's) exec_state \<Rightarrow> bool \<times> ('w, 's) exec_state" where
  "bindLoop eng q stmt curParam [] x = (True, x)"
| "bindLoop eng q stmt curParam (i # rest) x =
     (case sqlite3_bind_blob eng (x_world x) stmt (i + 1) (blobs q ! (curParam + i)) of
        (r, w1) \<Rightarrow>
          let x1 = x\<lparr>x_world := w1, x_events := x_events x @ [Bound (curParam + i) r]\<rparr>
          in if r \<noteq> SQLITE_OK then
               (False, x1\<lparr>x_log := x_log x1 @
                  [(Warning, [''Failed to bind param'', show_int (int (curParam + i)),
                      ''to query'', toUtf8 (anonymizeQuery eng (query q))])]\<rparr>)
             else bindLoop eng q stmt curParam rest x1)"

text \<open>
  The \<open>do ... while\<close> loop compiling the statements of one query, one at a time.
  It returns whether it ran to the end, and the statements of this query.
\<close>

partial_function (option) compileLoop :: "('w, 's) engine \<Rightarrow> Query \<Rightarrow> nat \<Rightarrow> string \<Rightarrow>
    's list \<Rightarrow> ('w, 's) exec_state \<Rightarrow> (bool \<times> 's list \<times> ('w, 's) exec_state) option" where
  "compileLoop eng q curParam compileTail stmts x =
     (case sqlite3_prepare_v2 eng (x_world x) compileTail of
        (r, stmt, n, w1) \<Rightarrow>
          let x1 = x\<lparr>x_world := w1, x_events := x_events x @ [Prepared compileTail r]\<rparr>
          in if r \<noteq> SQLITE_OK then
               Some (False, stmts, x1\<lparr>x_log := x_log x1 @
                  [(Warning, [''Failed to prepare statement'', toUtf8 (anonymizeQuery eng (query q)),
                      ''and returned'', show_int r]),
                   (Warning, [''The full error is'', show_int (sqlite3_errcode eng w1),
                      sqlite3_errmsg eng w1])]\<rparr>)
             else
               let stmts1 = stmts @ [stmt];
                   x2 = x1\<lparr>x_stmts := x_stmts x1 @ [stmt]\<rparr>;
                   nParams = sqlite3_bind_parameter_count eng stmt
               in if length (blobs q) < curParam + nParams then
                    Some (False, stmts1, x2\<lparr>x_events := x_events x2 @ [TooFewParams],
                      x_log := x_log x2 @
                        [(Warning, [''Not enough parameters to bind to query '',
                            toUtf8 (anonymizeQuery eng (query q))])]\<rparr>)
                  else
                    (case bindLoop eng q stmt curParam [0..<nParams] x2 of
                       (ok, x3) \<Rightarrow>
                         if \<not> ok then Some (False, stmts1, x3)
                         else if drop n compileTail \<noteq> [] then
                           compileLoop eng q (curParam + nParams) (drop n compileTail) stmts1 x3
                         else Some (True, stmts1, x3)))"

declare compileLoop.simps [code]

text \<open>The \<open>do ... while (result == SQLITE_ROW)\<close> loop stepping one statement.\<close>

partial_function (option) stepLoop :: "('w, 's) engine \<Rightarrow> Query \<Rightarrow> 's \<Rightarrow> nat \<Rightarrow>
    ('w, 's) exec_state \<Rightarrow> (int \<times> ('w, 's) exec_state) option" where
  "stepLoop eng q stmt column_count x =
     (case sqlite3_step eng (x_world x) stmt of
        (result, w1) \<Rightarrow>
          let x1 = x\<lparr>x_world := w1, x_events := x_events x @ [Stepped stmt result]\<rparr>;
              x2 = (if result = SQLITE_ROW \<and> rowCallback q then
                      x1\<lparr>x_events := x_events x1 @
                        [RowCallback (map (extractData eng w1 stmt) [0..<column_count])]\<rparr>
                    else x1)
          in if result = SQLITE_ROW then stepLoop eng q stmt column_count x2
             else Some (result, x2))"

declare stepLoop.simps [code]

definition step_error_message :: "int \<Rightarrow> string \<Rightarrow> log_entry" where
  "step_error_message result anonQuery =
     (if result = SQLITE_ERROR then (Warning, [''Error executing query'', anonQuery])
      else if result = SQLITE_MISUSE then (Warning, [''Misuse executing query'', anonQuery])
      else if result = SQLITE_CONSTRAINT then
        (Warning, [''Constraint error executing query'', anonQuery])
      else (Warning, [''Unknown error'', show_int result, ''executing query'', anonQuery]))"

text \<open>The loop executing the compiled statements of one query.\<close>

fun executeStatements :: "('w, 's) engine \<Rightarrow> Query \<Rightarrow> 's list \<Rightarrow> ('w, 's) exec_state \<Rightarrow>
    (bool \<times> ('w, 's) exec_state) option" where
  "executeStatements eng q [] x = Some (True, x)"
| "executeStatements eng q (stmt # rest) x =
     (case stepLoop eng q stmt (sqlite3_column_count eng stmt) x of
        None \<Rightarrow> None
      | Some (result, x1) \<Rightarrow>
          if result = SQLITE_DONE then executeStatements eng q rest x1
          else Some (False, x1\<lparr>x_log := x_log x1 @
                 [step_error_message result (toUtf8 (anonymizeQuery eng (query q)))]\<rparr>))"

text \<open>The loop over the queries of the transaction; \<open>False\<close> is an early return.\<close>

fun runQueries :: "('w, 's) engine \<Rightarrow> Query list \<Rightarrow> ('w, 's) exec_state \<Rightarrow>
    (bool \<times> ('w, 's) exec_state) option" where
  "runQueries eng [] x = Some (True, x)"
| "runQueries eng (q # qs) x =
     (case compileLoop eng q 0 (query q) [] x of
        None \<Rightarrow> None
      | Some (compiled, stmts, x1) \<Rightarrow>
          if \<not> compiled then Some (False, x1)
          else
            (case executeStatements eng q stmts x1 of
               None \<Rightarrow> None
             | Some (executed, x2) \<Rightarrow>
                 if \<not> executed then Some (False, x2)
                 else
                   runQueries eng qs
                     (if insertCallback q then
                        x2\<lparr>x_events := x_events x2 @
                          [InsertCallback (sqlite3_last_insert_rowid eng (x_world x2))]\<rparr>
                      else x2)))"

definition addTransactionCommands :: "Query list \<Rightarrow> Query list" where
  "addTransactionCommands qs =
     (if 1 < length qs then mkQuery ''BEGIN;'' # qs @ [mkQuery ''COMMIT;''] else qs)"

definition exec_start :: "'w \<Rightarrow> ('w, 's) exec_state" where
  "exec_start w = \<lparr>x_world = w, x_stmts = [], x_events = [], x_log = []\<rparr>"

definition compileAndExecute :: "('w, 's) engine \<Rightarrow> 'w \<Rightarrow> Transaction \<Rightarrow>
    (Transaction \<times> ('w, 's) exec_state) option" where
  "compileAndExecute eng w tr =
     (let t1 = tr\<lparr>success_flag := map_option (\<lambda>_. False) (success_flag tr)\<rparr>;
          t2 = t1\<lparr>queries := addTransactionCommands (queries t1)\<rparr>
      in case runQueries eng (queries t2) (exec_start w) of
           None \<Rightarrow> None
         | Some (completed, x) \<Rightarrow>
             Some (if completed then t2\<lparr>success_flag := map_option (\<lambda>_. True) (success_flag t2)\<rparr>
                   else t2, x))"

subsection \<open>The store and its transaction queue\<close>

text \<open>
  The members of \<open>RawDatabaseImpl\<close>: \<open>sqlite\<close> says whether the engine handle is
  non-null. \<open>world\<close> is the engine and the file system, \<open>logs\<close> what was written to the
  log. \<open>lastFinished\<close> keeps, for the transaction \<open>process\<close> has run last, the
  transaction with its flags as the worker left them and the events of its run: it is how
  the submitter's atomics and callbacks are observed.
\<close>

record ('w, 's) impl =
  sqlite :: bool
  path :: string
  currentSalt :: string
  currentHexKey :: string
  pendingTransactions :: "Transaction list"
  world :: 'w
  logs :: "log_entry list"
  lastFinished :: "(Transaction \<times> 's event list) option"

type_synonym ('a, 'w, 's) call = "('a \<times> ('w, 's) impl) option"

definition say :: "level \<Rightarrow> string list \<Rightarrow> ('w, 's) impl \<Rightarrow> ('w, 's) impl" where
  "say lvl msg st = st\<lparr>logs := logs st @ [(lvl, msg)]\<rparr>"

text \<open>
  The \<open>forever\<close> loop of \<open>process\<close>, over the queue: run the transaction at the front,
  finalize its statements, set its \<open>done\<close> flag.
\<close>

fun processLoop :: "('w, 's) engine \<Rightarrow> Transaction list \<Rightarrow> ('w, 's) impl \<Rightarrow>
    ('w, 's) impl option" where
  "processLoop eng [] st = Some st"
| "processLoop eng (t # ts) st =
     (case compileAndExecute eng (world st) t of
        None \<Rightarrow> None
      | Some (t1, x) \<Rightarrow>
          processLoop eng ts
            (st\<lparr>pendingTransactions := ts,
                world := fold (\<lambda>stmt w. sqlite3_finalize eng w stmt) (x_stmts x) (x_world x),
                logs := logs st @ x_log x,
                lastFinished :=
                  Some (t1\<lparr>done_flag := map_option (\<lambda>_. True) (done_flag t1)\<rparr>, x_events x)\<rparr>))"

definition process :: "('w, 's) engine \<Rightarrow> ('w, 's) impl \<Rightarrow> ('w, 's) impl option" where
  "process eng st = (if \<not> sqlite st then Some st else processLoop eng (pendingTransactions st) st)"

text \<open>
  \<open>execNow\<close>: queue the transaction with fresh \<open>done\<close> and \<open>success\<close> atomics, have
  \<open>process\<close> run, wait for \<open>done\<close> and return \<open>success\<close>. The transaction is the last of
  the queue, so it is the one \<open>process\<close> leaves in \<open>lastFinished\<close>; if \<open>done\<close> were
  not set the wait would never end. The events of the run are returned with the result:
  they are what the callbacks of the statements have seen.
\<close>

definition execNow :: "('w, 's) engine \<Rightarrow> ('w, 's) impl \<Rightarrow> Query list \<Rightarrow>
    (bool \<times> 's event list, 'w, 's) call" where
  "execNow eng st statements =
     (if \<not> sqlite st then
        Some ((False, []), say Warning [''Trying to exec, but the database is not open''] st)
      else
        (case process eng (st\<lparr>pendingTransactions := pendingTransactions st @
                 [\<lparr>queries = statements, success_flag = Some False, done_flag = Some False\<rparr>]\<rparr>) of
           None \<Rightarrow> None
         | Some st1 \<Rightarrow>
             (case lastFinished st1 of
                None \<Rightarrow> None
              | Some (t, evs) \<Rightarrow>
                  if done_flag t = Some True then Some ((success_flag t = Some True, evs), st1)
                  else None)))"

definition execNowQuery :: "('w, 's) engine \<Rightarrow> ('w, 's) impl \<Rightarrow> Query \<Rightarrow>
    (bool \<times> 's event list, 'w, 's) call" where
  "execNowQuery eng st statement = execNow eng st [statement]"

definition execNowText :: "('w, 's) engine \<Rightarrow> ('w, 's) impl \<Rightarrow> string \<Rightarrow> (bool, 'w, 's) call" where
  "execNowText eng st statement =
     map_option (\<lambda>((ok, evs), st1). (ok, st1)) (execNowQuery eng st (mkQuery statement))"

text \<open>
  \<open>execLater\<close> queues the transaction without flags; the \<open>process\<close> call it posts runs
  when the worker next gets to it.
\<close>

definition execLater :: "('w, 's) engine \<Rightarrow> ('w, 's) impl \<Rightarrow> Query list \<Rightarrow> ('w, 's) impl" where
  "execLater eng st statements =
     (if \<not> sqlite st then say Warning [''Trying to exec, but the database is not open''] st
      else st\<lparr>pendingTransactions := pendingTransactions st @
             [\<lparr>queries = statements, success_flag = None, done_flag = None\<rparr>]\<rparr>)"

definition sync :: "('w, 's) engine \<Rightarrow> ('w, 's) impl \<Rightarrow> ('w, 's) impl option" where
  "sync eng st = process eng st"

text \<open>\<open>sqlite3_close\<close> of a null handle does nothing and returns \<open>SQLITE_OK\<close>.\<close>

definition close :: "('w, 's) engine \<Rightarrow> ('w, 's) impl \<Rightarrow> ('w, 's) impl option" where
  "close eng st =
     (case process eng st of
        None \<Rightarrow> None
      | Some st1 \<Rightarrow>
          if \<not> sqlite st1 then Some st1
          else
            (case sqlite3_close eng (world st1) of
               (r, w1) \<Rightarrow>
                 if r = SQLITE_OK then Some (st1\<lparr>world := w1, sqlite := False\<rparr>)
                 else Some (say Warning [''Error closing database:'', sqlite3_errmsg eng w1]
                              (st1\<lparr>world := w1\<rparr>))))"

definition isOpen :: "('w, 's) impl \<Rightarrow> bool" where
  "isOpen st = sqlite st"

subsection \<open>Qt conversions\<close>

definition is_space :: "char \<Rightarrow> bool" where
  "is_space c = (c \<in> set [CHR '' '', CHR 0x09, CHR 0x0A, CHR 0x0B, CHR 0x0C, CHR 0x0D])"

definition digits_value :: "string \<Rightarrow> int" where
  "digits_value ds = foldl (\<lambda>acc c. 10 * acc + (int (of_char c) - 48)) 0 ds"

text \<open>
  \<open>QString::toInt\<close> and \<open>toLongLong\<close> on decimal text: white space around the number is
  skipped, a sign is allowed, and the result is 0 when the text is not a number of the
  given width.
\<close>

definition parse_signed :: "nat \<Rightarrow> string \<Rightarrow> int" where
  "parse_signed bits s =
     (let t = rev (dropWhile is_space (rev (dropWhile is_space s)));
          neg = (t \<noteq> [] \<and> hd t = CHR ''-'');
          ds = (if t \<noteq> [] \<and> (hd t = CHR ''-'' \<or> hd t = CHR ''+'') then tl t else t);
          v = (if neg then - digits_value ds else digits_value ds)
      in if ds \<noteq> [] \<and> list_all is_digit ds \<and> - (2 ^ (bits - 1)) \<le> v \<and> v < 2 ^ (bits - 1)
         then v else 0)"

definition toInt :: "string \<Rightarrow> int" where
  "toInt s = parse_signed 32 s"

definition variant_toString :: "variant \<Rightarrow> string" where
  "variant_toString v =
     (case v of VInt n \<Rightarrow> show_int n | VText s \<Rightarrow> s | VBlob b \<Rightarrow> b | VNull \<Rightarrow> [])"

definition variant_toLongLong :: "variant \<Rightarrow> int" where
  "variant_toLongLong v =
     (case v of VInt n \<Rightarrow> n | VText s \<Rightarrow> parse_signed 64 s | VBlob b \<Rightarrow> parse_signed 64 b
      | VNull \<Rightarrow> 0)"

text \<open>
  A row callback that assigns \<open>row[0]\<close> to a local: the local ends as the first column
  of the last row delivered, or stays as it was (\<open>None\<close>) when no row came. Reading
  \<open>row[0]\<close> of a row without columns is outside the defined behaviour of the source; the
  model leaves the local as it was there.
\<close>

fun lastFirstColumn :: "'s event list \<Rightarrow> variant option \<Rightarrow> variant option" where
  "lastFirstColumn [] v = v"
| "lastFirstColumn (RowCallback (c # cs) # evs) v = lastFirstColumn evs (Some c)"
| "lastFirstColumn (e # evs) v = lastFirstColumn evs v"

text \<open>\<open>QString::split('.')[0]\<close>.\<close>

definition firstDotField :: "string \<Rightarrow> string" where
  "firstDotField s = takeWhile (\<lambda>c. c \<noteq> CHR ''.'') s"

text \<open>The conversion of the \<open>int64_t\<close> to the \<open>int\<close> that \<open>getUserVersion\<close> returns.\<close>

definition int64_to_int :: "int \<Rightarrow> int" where
  "int64_to_int v = sint (word_of_int v :: 32 word)"

subsection \<open>Keys and cipher parameters\<close>

text \<open>
  The lengths toxencryptsave fixes. \<open>tox_pass_key_derive_with_salt\<close> returns the bytes of
  the \<open>Tox_Pass_Key\<close> it allocates (the salt, then the key); \<open>deriveKey\<close> hex-encodes
  the 32 bytes behind the first 32 (a derivation that fails for want of memory is not
  modelled). The salted derivation returns the log lines it writes with the key.
\<close>

abbreviation TOX_PASS_SALT_LENGTH :: nat where "TOX_PASS_SALT_LENGTH \<equiv> 32"

definition hexDigit :: "nat \<Rightarrow> char" where
  "hexDigit n = ''0123456789abcdef'' ! (n mod 16)"

definition toHex :: "string \<Rightarrow> string" where
  "toHex bs = concat (map (\<lambda>c. [hexDigit (of_char c div 16), hexDigit (of_char c mod 16)]) bs)"

definition is_hex_digit :: "char \<Rightarrow> bool" where
  "is_hex_digit c = (c \<in> set ''0123456789abcdef'')"

definition expandConstant :: string where
  "expandConstant = ''L'' @ [quote] @ ''ignorance est le pire des maux''"

definition deriveKey_unsalted :: "('w, 's) engine \<Rightarrow> string \<Rightarrow> string" where
  "deriveKey_unsalted eng password =
     (if password = [] then []
      else toHex (take 32 (drop 32 (tox_pass_key_derive_with_salt eng password expandConstant))))"

definition deriveKey :: "('w, 's) engine \<Rightarrow> string \<Rightarrow> string \<Rightarrow> string \<times> log_entry list" where
  "deriveKey eng password salt =
     (if password = [] then ([], [])
      else if length salt \<noteq> TOX_PASS_SALT_LENGTH then
        ([], [(Warning, [''Salt length doesn't match toxencryptsave expectations''])])
      else (toHex (take 32 (drop 32 (tox_pass_key_derive_with_salt eng password salt))), []))"

text \<open>
  The generations in the order of the enumeration. The \<open>toString\<close> of the header is
  not among the sources; a log line shows the name of the enumerator.
\<close>

definition paramsIndex :: "SqlCipherParams \<Rightarrow> nat" where
  "paramsIndex p = (case p of p3_0 \<Rightarrow> 0 | halfUpgradedTo4 \<Rightarrow> 1 | p4_0 \<Rightarrow> 2)"

definition paramsName :: "SqlCipherParams \<Rightarrow> string" where
  "paramsName p =
     (case p of p3_0 \<Rightarrow> ''p3_0'' | halfUpgradedTo4 \<Rightarrow> ''halfUpgradedTo4''
      | p4_0 \<Rightarrow> ''p4_0'')"

definition keyLiteral :: "string \<Rightarrow> string" where
  "keyLiteral hexKey = [dquote] @ ''x'' @ [quote] @ hexKey @ [quote, dquote]"

definition setKey :: "('w, 's) engine \<Rightarrow> ('w, 's) impl \<Rightarrow> string \<Rightarrow> (bool, 'w, 's) call" where
  "setKey eng st hexKey =
     (case execNowText eng st (''PRAGMA key = '' @ keyLiteral hexKey) of
        None \<Rightarrow> None
      | Some (ok, st1) \<Rightarrow>
          if \<not> ok then Some (False, say Warning [''Failed to set encryption key''] st1)
          else Some (True, st1))"

text \<open>
  The pragmas of a generation, with \<open>database.\<close> already replaced by the prefix
  \<open>pre\<close>.
\<close>

definition cipherPragmas :: "SqlCipherParams \<Rightarrow> string \<Rightarrow> string" where
  "cipherPragmas params pre =
     (case params of
        p3_0 \<Rightarrow>
          ''PRAGMA '' @ pre @ ''cipher_page_size = 1024;'' @
          ''PRAGMA '' @ pre @ ''kdf_iter = 64000;'' @
          ''PRAGMA '' @ pre @ ''cipher_hmac_algorithm = HMAC_SHA1;'' @
          ''PRAGMA '' @ pre @ ''cipher_kdf_algorithm = PBKDF2_HMAC_SHA1;''
      | halfUpgradedTo4 \<Rightarrow>
          ''PRAGMA '' @ pre @ ''cipher_page_size = 4096;'' @
          ''PRAGMA '' @ pre @ ''kdf_iter = 256000;'' @
          ''PRAGMA '' @ pre @ ''cipher_hmac_algorithm = HMAC_SHA1;'' @
          ''PRAGMA '' @ pre @ ''cipher_kdf_algorithm = PBKDF2_HMAC_SHA1;''
      | p4_0 \<Rightarrow>
          ''PRAGMA '' @ pre @ ''cipher_page_size = 4096;'' @
          ''PRAGMA '' @ pre @ ''kdf_iter = 256000;'' @
          ''PRAGMA '' @ pre @ ''cipher_hmac_algorithm = HMAC_SHA512;'' @
          ''PRAGMA '' @ pre @ ''cipher_kdf_algorithm = PBKDF2_HMAC_SHA512;'' @
          ''PRAGMA '' @ pre @ ''cipher_memory_security = ON;'')"

definition setCipherParameters :: "('w, 's) engine \<Rightarrow> ('w, 's) impl \<Rightarrow> SqlCipherParams \<Rightarrow>
    string option \<Rightarrow> (bool, 'w, 's) call" where
  "setCipherParameters eng st params database =
     execNowText eng (say Debug [''Setting SQLCipher'', paramsName params, ''parameters''] st)
       (cipherPragmas params (case database of None \<Rightarrow> [] | Some d \<Rightarrow> d @ ''.''))"

definition testUsable :: "('w, 's) engine \<Rightarrow> ('w, 's) impl \<Rightarrow> (bool, 'w, 's) call" where
  "testUsable eng st = execNowText eng st ''SELECT count(*) FROM sqlite_master;''"

definition paramsOfMajorVersion :: "int \<Rightarrow> SqlCipherParams option" where
  "paramsOfMajorVersion majorVersion =
     (if majorVersion = 3 then Some halfUpgradedTo4
      else if majorVersion = 4 then Some p4_0
      else None)"

text \<open>
  The major version \<open>highestSupportedParams\<close> reads off the rows its callback has seen:
  \<open>cipherVersion\<close> starts empty and is the text of the first column of the last row.
\<close>

definition reportedMajorVersion :: "'s event list \<Rightarrow> int" where
  "reportedMajorVersion evs =
     toInt (firstDotField
       (case lastFirstColumn evs None of None \<Rightarrow> [] | Some v \<Rightarrow> variant_toString v))"

definition cipherVersionQuery :: Query where
  "cipherVersionQuery = (mkQuery ''PRAGMA cipher_version'')\<lparr>rowCallback := True\<rparr>"

definition highestSupportedParams :: "('w, 's) engine \<Rightarrow> ('w, 's) impl \<Rightarrow>
    (SqlCipherParams, 'w, 's) call" where
  "highestSupportedParams eng st =
     (case execNowQuery eng st cipherVersionQuery of
        None \<Rightarrow> None
      | Some ((ok, evs), st1) \<Rightarrow>
          if \<not> ok then Some (p3_0, say Critical [''Failed to read cipher_version''] st1)
          else
            (case paramsOfMajorVersion (reportedMajorVersion evs) of
               None \<Rightarrow> Some (p3_0, say Critical [''Unsupported SQLCipher version detected!''] st1)
             | Some highest \<Rightarrow>
                 Some (highest,
                   say Debug [''Highest supported SQLCipher params on this system are'',
                     paramsName highest] st1)))"

text \<open>
  The body of the loop of \<open>readSavedCipherParams\<close> for one generation: the store is
  found usable or unusable under it, or the key or the pragmas could not be set and the
  loop is left.
\<close>

datatype probe_result = Usable | Unusable | Aborted

definition probeGeneration :: "('w, 's) engine \<Rightarrow> ('w, 's) impl \<Rightarrow> string \<Rightarrow> SqlCipherParams \<Rightarrow>
    (probe_result, 'w, 's) call" where
  "probeGeneration eng st hexKey p =
     (case setKey eng st hexKey of
        None \<Rightarrow> None
      | Some (keyed, st1) \<Rightarrow>
          if \<not> keyed then Some (Aborted, st1)
          else
            (case setCipherParameters eng st1 p None of
               None \<Rightarrow> None
             | Some (configured, st2) \<Rightarrow>
                 if \<not> configured then Some (Aborted, st2)
                 else
                   (case testUsable eng st2 of
                      None \<Rightarrow> None
                    | Some (usable, st3) \<Rightarrow> Some (if usable then Usable else Unusable, st3))))"

text \<open>
  The loop over the generations below \<open>newParams\<close>. It returns the generation it
  \<open>return\<close>s, or \<open>None\<close> when it is left without one, and with it the probes it made.
\<close>

fun readSavedLoop :: "('w, 's) engine \<Rightarrow> string \<Rightarrow> SqlCipherParams list \<Rightarrow> ('w, 's) impl \<Rightarrow>
    (SqlCipherParams option \<times> (SqlCipherParams \<times> probe_result) list, 'w, 's) call" where
  "readSavedLoop eng hexKey [] st = Some ((None, []), st)"
| "readSavedLoop eng hexKey (p # ps) st =
     (case probeGeneration eng st hexKey p of
        None \<Rightarrow> None
      | Some (Usable, st1) \<Rightarrow> Some ((Some p, [(p, Usable)]), st1)
      | Some (Aborted, st1) \<Rightarrow> Some ((None, [(p, Aborted)]), st1)
      | Some (Unusable, st1) \<Rightarrow>
          map_option (\<lambda>((found, probes), st2). ((found, (p, Unusable) # probes), st2))
            (readSavedLoop eng hexKey ps st1))"

definition generationsBelow :: "SqlCipherParams \<Rightarrow> SqlCipherParams list" where
  "generationsBelow newParams =
     filter (\<lambda>p. paramsIndex p < paramsIndex newParams) [p3_0, halfUpgradedTo4, p4_0]"

definition readSavedCipherParams :: "('w, 's) engine \<Rightarrow> ('w, 's) impl \<Rightarrow> string \<Rightarrow>
    SqlCipherParams \<Rightarrow> (SqlCipherParams, 'w, 's) call" where
  "readSavedCipherParams eng st hexKey newParams =
     (case readSavedLoop eng hexKey (generationsBelow newParams) st of
        None \<Rightarrow> None
      | Some ((Some p, probes), st1) \<Rightarrow> Some (p, st1)
      | Some ((None, probes), st1) \<Rightarrow>
          Some (p3_0, say Critical [''Failed to check saved SQLCipher params''] st1))"

text \<open>
  \<open>getUserVersion\<close>: the local \<open>user_version\<close> has no initial value, so after a
  successful query that delivered no row the function returns what the local held.
\<close>

definition userVersionQuery :: Query where
  "userVersionQuery = (mkQuery ''PRAGMA user_version'')\<lparr>rowCallback := True\<rparr>"

definition getUserVersion :: "('w, 's) engine \<Rightarrow> ('w, 's) impl \<Rightarrow> (int, 'w, 's) call" where
  "getUserVersion eng st =
     (case execNowQuery eng st userVersionQuery of
        None \<Rightarrow> None
      | Some ((ok, evs), st1) \<Rightarrow>
          if \<not> ok then
            Some (- 1, say Critical [''Failed to read user_version during cipher upgrade''] st1)
          else
            (case lastFirstColumn evs None of
               None \<Rightarrow> Some (int64_to_int (indeterminate eng (world st1)), st1)
             | Some v \<Rightarrow> Some (int64_to_int (variant_toLongLong v), st1)))"

subsection \<open>Opening, migrating and swapping\<close>

text \<open>
  \<open>open\<close>, \<open>openEncryptedDatabaseAtLatestSupportedVersion\<close>,
  \<open>updateSavedCipherParameters\<close> and \<open>commitDbSwap\<close> call each other in a cycle (a swap
  reopens the store, and opening may migrate and swap again), so they are one recursive
  function over the operation asked for; each method is then a definition of its own.
\<close>

datatype operation =
    Open string string
  | OpenEncryptedDatabaseAtLatestSupportedVersion string
  | UpdateSavedCipherParameters string SqlCipherParams
  | CommitDbSwap string

definition attachStatement :: "string \<Rightarrow> string \<Rightarrow> string \<Rightarrow> string" where
  "attachStatement dbPath alias hexKey =
     ''ATTACH DATABASE '' @ [quote] @ dbPath @ ''.tmp'' @ [quote] @ '' AS '' @ alias @
     '' KEY '' @ keyLiteral hexKey @ '';''"

definition exportStatement :: "string \<Rightarrow> string" where
  "exportStatement alias = ''SELECT sqlcipher_export('' @ [quote] @ alias @ [quote] @ '');''"

definition userVersionStatement :: "string \<Rightarrow> int \<Rightarrow> string" where
  "userVersionStatement alias user_version =
     ''PRAGMA '' @ alias @ ''.user_version = '' @ show_int user_version @ '';''"

definition detachStatement :: "string \<Rightarrow> string" where
  "detachStatement alias = ''DETACH DATABASE '' @ alias @ '';''"

partial_function (option) lifecycle :: "('w, 's) engine \<Rightarrow> operation \<Rightarrow> ('w, 's) impl \<Rightarrow>
    (bool, 'w, 's) call" where
  "lifecycle eng m st =
     (case m of
        Open path' hexKey \<Rightarrow>
          (case (if \<not> file_exists eng (world st) path'
                    \<and> file_exists eng (world st) (path' @ ''.tmp'')
                 then (say Warning [''Restoring database from temporary export file! Did we crash while changing the password or upgrading?''] st)
                        \<lparr>world := snd (file_rename eng (world st) (path' @ ''.tmp'') path')\<rparr>
                 else st) of
             st1 \<Rightarrow>
               (case sqlite3_open_v2 eng (world st1) path' of
                  (r, handle, w2) \<Rightarrow>
                    if r \<noteq> SQLITE_OK then
                      Some (False, say Warning [''Failed to open database'', path',
                                ''with error:'', sqlite3_errmsg eng w2]
                              (st1\<lparr>world := w2, sqlite := handle\<rparr>))
                    else
                      (case sqlite3_create_function eng w2 ''regexp'' of
                         (r1, w3) \<Rightarrow>
                           if r1 \<noteq> SQLITE_OK then
                             map_option (Pair False)
                               (close eng (say Warning [''Failed to create function regexp'']
                                  (st1\<lparr>world := w3, sqlite := handle\<rparr>)))
                           else
                             (case sqlite3_create_function eng w3 ''regexpsensitive'' of
                                (r2, w4) \<Rightarrow>
                                  if r2 \<noteq> SQLITE_OK then
                                    map_option (Pair False)
                                      (close eng
                                         (say Warning [''Failed to create function regexpsensitive'']
                                            (st1\<lparr>world := w4, sqlite := handle\<rparr>)))
                                  else if hexKey \<noteq> [] then do {
                                    (ok, st2) \<leftarrow> lifecycle eng
                                       (OpenEncryptedDatabaseAtLatestSupportedVersion hexKey)
                                       (st1\<lparr>world := w4, sqlite := handle\<rparr>);
                                    if \<not> ok then map_option (Pair False) (close eng st2)
                                    else Some (True, st2) }
                                  else Some (True, st1\<lparr>world := w4, sqlite := handle\<rparr>)))))
      | OpenEncryptedDatabaseAtLatestSupportedVersion hexKey \<Rightarrow> do {
          (keyed, st1) \<leftarrow> setKey eng st hexKey;
          if \<not> keyed then Some (False, st1) else do {
          (highestSupportedVersion, st2) \<leftarrow> highestSupportedParams eng st1;
          (configured, st3) \<leftarrow> setCipherParameters eng st2 highestSupportedVersion None;
          if configured then do {
            (usable, st4) \<leftarrow> testUsable eng st3;
            if usable then
              Some (True, say Info [''Opened database with SQLCipher'',
                paramsName highestSupportedVersion, ''parameters''] st4)
            else lifecycle eng (UpdateSavedCipherParameters hexKey highestSupportedVersion) st4 }
          else Some (False, say Critical [''Failed to set latest supported SQLCipher params!''] st3)
          } }
      | UpdateSavedCipherParameters hexKey newParams \<Rightarrow> do {
          (currentParams, st1) \<leftarrow> readSavedCipherParams eng st hexKey newParams;
          (keyed, st2) \<leftarrow> setKey eng st1 hexKey;
          (configured, st3) \<leftarrow> setCipherParameters eng st2 currentParams None;
          if \<not> configured then Some (False, st3) else do {
          (user_version, st4) \<leftarrow> getUserVersion eng st3;
          if user_version < 0 then Some (False, st4) else do {
          (attached, st5) \<leftarrow> execNowText eng st4 (attachStatement (path st4) ''newParams'' hexKey);
          if \<not> attached then Some (False, st5) else do {
          (configured2, st6) \<leftarrow> setCipherParameters eng st5 newParams (Some ''newParams'');
          if \<not> configured2 then Some (False, st6) else do {
          (exported, st7) \<leftarrow> execNowText eng st6 (exportStatement ''newParams'');
          if \<not> exported then Some (False, st7) else do {
          (versioned, st8) \<leftarrow> execNowText eng st7 (userVersionStatement ''newParams'' user_version);
          if \<not> versioned then Some (False, st8) else do {
          (detached, st9) \<leftarrow> execNowText eng st8 (detachStatement ''newParams'');
          if \<not> detached then Some (False, st9) else do {
          (swapped, st10) \<leftarrow> lifecycle eng (CommitDbSwap hexKey) st9;
          if \<not> swapped then Some (False, st10)
          else Some (True, say Info [''Upgraded database from SQLCipher'', paramsName currentParams,
                 ''params to'', paramsName newParams, ''params complete''] st10)
          } } } } } } } }
      | CommitDbSwap hexKey \<Rightarrow> do {
          st1 \<leftarrow> close eng st;
          (ok, st2) \<leftarrow> lifecycle eng (Open (path st1) hexKey)
             (st1\<lparr>world := snd (file_rename eng (snd (file_remove eng (world st1) (path st1)))
                                (path st1 @ ''.tmp'') (path st1)),
                  currentHexKey := hexKey\<rparr>);
          if \<not> ok then Some (False, say Critical [''Failed to swap db''] st2)
          else Some (True, st2) })"

declare lifecycle.simps [code]

definition open_db :: "('w, 's) engine \<Rightarrow> ('w, 's) impl \<Rightarrow> string \<Rightarrow> string \<Rightarrow>
    (bool, 'w, 's) call" where
  "open_db eng st path' hexKey = lifecycle eng (Open path' hexKey) st"

definition openEncryptedDatabaseAtLatestSupportedVersion :: "('w, 's) engine \<Rightarrow>
    ('w, 's) impl \<Rightarrow> string \<Rightarrow> (bool, 'w, 's) call" where
  "openEncryptedDatabaseAtLatestSupportedVersion eng st hexKey =
     lifecycle eng (OpenEncryptedDatabaseAtLatestSupportedVersion hexKey) st"


definition commitDbSwap :: "('w, 's) engine \<Rightarrow> ('w, 's) impl \<Rightarrow> string \<Rightarrow> (bool, 'w, 's) call" where
  "commitDbSwap eng st hexKey = lifecycle eng (CommitDbSwap hexKey) st"

subsection \<open>Changing the password, renaming, removing\<close>

definition encryptDatabase :: "('w, 's) engine \<Rightarrow> ('w, 's) impl \<Rightarrow> string \<Rightarrow> (bool, 'w, 's) call" where
  "encryptDatabase eng st newHexKey = do {
     (user_version, st1) \<leftarrow> getUserVersion eng st;
     if user_version < 0 then Some (False, st1) else do {
     (attached, st2) \<leftarrow> execNowText eng st1 (attachStatement (path st1) ''encrypted'' newHexKey);
     if \<not> attached then Some (False, say Warning [''Failed to export encrypted database''] st2)
     else do {
     (configured, st3) \<leftarrow> setCipherParameters eng st2 p4_0 (Some ''encrypted'');
     if \<not> configured then Some (False, st3) else do {
     (exported, st4) \<leftarrow> execNowText eng st3 (exportStatement ''encrypted'');
     if \<not> exported then Some (False, st4) else do {
     (versioned, st5) \<leftarrow> execNowText eng st4 (userVersionStatement ''encrypted'' user_version);
     if \<not> versioned then Some (False, st5) else do {
     (detached, st6) \<leftarrow> execNowText eng st5 (detachStatement ''encrypted'');
     if \<not> detached then Some (False, st6)
     else commitDbSwap eng st6 newHexKey } } } } } }"

definition decryptExportStatement :: "string \<Rightarrow> string" where
  "decryptExportStatement dbPath =
     ''ATTACH DATABASE '' @ [quote] @ dbPath @ ''.tmp'' @ [quote] @ '' AS plaintext KEY '' @
     [quote, quote] @ '';'' @ exportStatement ''plaintext''"

definition decryptDatabase :: "('w, 's) engine \<Rightarrow> ('w, 's) impl \<Rightarrow> (bool, 'w, 's) call" where
  "decryptDatabase eng st = do {
     (user_version, st1) \<leftarrow> getUserVersion eng st;
     if user_version < 0 then Some (False, st1) else do {
     (exported, st2) \<leftarrow> execNowText eng st1 (decryptExportStatement (path st1));
     if \<not> exported then Some (False, say Warning [''Failed to export decrypted database''] st2)
     else do {
     (versioned, st3) \<leftarrow> execNowText eng st2 (userVersionStatement ''plaintext'' user_version);
     if \<not> versioned then Some (False, st3) else do {
     (detached, st4) \<leftarrow> execNowText eng st3 (detachStatement ''plaintext'');
     if \<not> detached then Some (False, st4)
     else commitDbSwap eng st4 [] } } } }"

text \<open>The deletion of a leftover export file at the start of \<open>setPassword\<close>.\<close>

definition removeStaleExport :: "('w, 's) engine \<Rightarrow> ('w, 's) impl \<Rightarrow> ('w, 's) impl" where
  "removeStaleExport eng st =
     (if file_exists eng (world st) (path st @ ''.tmp'') then
        (say Warning [''Found old temporary export file while rekeying, deleting it''] st)
          \<lparr>world := snd (file_remove eng (world st) (path st @ ''.tmp''))\<rparr>
      else st)"

definition setPassword :: "('w, 's) engine \<Rightarrow> ('w, 's) impl \<Rightarrow> string \<Rightarrow> (bool, 'w, 's) call" where
  "setPassword eng st password =
     (if \<not> sqlite st then
        Some (False,
          say Warning [''Trying to change the password, but the database is not open''] st)
      else do {
        st1 \<leftarrow> process eng st;
        (case removeStaleExport eng st1 of
           st2 \<Rightarrow>
             if password \<noteq> [] then
               (case deriveKey eng password (currentSalt st2) of
                  (newHexKey, msgs) \<Rightarrow>
                    if currentHexKey st2 \<noteq> [] then do {
                      (rekeyed, st3) \<leftarrow> execNowText eng (st2\<lparr>logs := logs st2 @ msgs\<rparr>)
                         (''PRAGMA rekey = '' @ keyLiteral newHexKey);
                      if \<not> rekeyed then
                        map_option (Pair False)
                          (close eng (say Warning [''Failed to change encryption key''] st3))
                      else Some (True, st3) }
                    else do {
                      (encrypted, st3) \<leftarrow> encryptDatabase eng (st2\<lparr>logs := logs st2 @ msgs\<rparr>)
                         newHexKey;
                      if \<not> encrypted then map_option (Pair False) (close eng st3)
                      else Some (True, st3\<lparr>currentHexKey := newHexKey\<rparr>) })
             else if currentHexKey st2 = [] then Some (True, st2)
             else do {
               (decrypted, st3) \<leftarrow> decryptDatabase eng st2;
               if \<not> decrypted then map_option (Pair False) (close eng st3)
               else Some (True, st3) }) })"


definition remove :: "('w, 's) engine \<Rightarrow> ('w, 's) impl \<Rightarrow> (bool, 'w, 's) call" where
  "remove eng st =
     (if \<not> sqlite st then
        Some (False, say Warning [''Trying to remove the database, but it is not open''] st)
      else do {
        st1 \<leftarrow> close eng (say Debug [''Removing database'', path st] st);
        (case file_remove eng (world st1) (path st1) of
           (removed, w2) \<Rightarrow> Some (removed, st1\<lparr>world := w2\<rparr>)) })"

subsection \<open>The constructor\<close>

definition RawDatabaseImpl :: "('w, 's) engine \<Rightarrow> 'w \<Rightarrow> string \<Rightarrow> string \<Rightarrow> string \<Rightarrow>
    ('w, 's) impl option" where
  "RawDatabaseImpl eng w path' password salt =
     (case deriveKey eng password salt of
        (hexKey, msgs) \<Rightarrow> do {
          (opened, st1) \<leftarrow> open_db eng
             \<lparr>sqlite = False, path = path', currentSalt = salt, currentHexKey = hexKey,
              pendingTransactions = [], world = w, logs = msgs, lastFinished = None\<rparr> path' hexKey;
          if opened then Some st1
          else do {
            st2 \<leftarrow> close eng st1;
            (case file_copy eng (world st2) (path st2) (path st2 @ ''.bak'') of
               (upgrade, w3) \<Rightarrow>
                 (case deriveKey_unsalted eng password of
                    oldHexKey \<Rightarrow> do {
                      (opened2, st3) \<leftarrow> open_db eng
                         ((if \<not> upgrade then
                             say Debug [''Couldn't create the backup of the database, won't upgrade'']
                               (st2\<lparr>world := w3\<rparr>)
                           else st2\<lparr>world := w3\<rparr>)
                            \<lparr>currentHexKey := oldHexKey\<rparr>)
                         (path st2) oldHexKey;
                      if opened2 then
                        (if upgrade then do {
                           (upgraded, st4) \<leftarrow> setPassword eng st3 password;
                           if upgraded then
                             Some (say Debug [''Successfully upgraded to dynamic salt''] st4)
                           else Some (say Warning [''Failed to set password with new salt''] st4) }
                         else Some st3)
                      else Some (say Debug [''Failed to open database with old salt''] st3) })) } })"

subsection \<open>Errors among the events of a run\<close>

text \<open>
  An event is an error when the engine refused to compile, bind or step, or when the
  query had too few parameters.
\<close>

definition is_error :: "'s event \<Rightarrow> bool" where
  "is_error e =
     (case e of
        Prepared t r \<Rightarrow> r \<noteq> SQLITE_OK
      | TooFewParams \<Rightarrow> True
      | Bound i r \<Rightarrow> r \<noteq> SQLITE_OK
      | Stepped s r \<Rightarrow> r \<noteq> SQLITE_ROW \<and> r \<noteq> SQLITE_DONE
      | RowCallback row \<Rightarrow> False
      | InsertCallback i \<Rightarrow> False)"

definition clean :: "'s event list \<Rightarrow> bool" where
  "clean evs = (\<not> list_ex is_error evs)"

definition stopped :: "'s event list \<Rightarrow> bool" where
  "stopped evs = (evs \<noteq> [] \<and> is_error (last evs) \<and> clean (butlast evs))"

section \<open>A small engine to run the store on\<close>

text \<open>
  A concrete engine and file system, small enough to evaluate: a database file has a key,
  a page size, an HMAC choice and a user version; a connection reads its main database
  when the key and the cipher settings it was given are those of the file. A file that
  was just created is fresh: it takes the key and the settings of the connection that
  first uses it. A statement is
  its text up to the semicolon. \<open>faults\<close> lists beginnings of statements that fail when
  stepped, \<open>bad_sql\<close> beginnings of statements that do not compile.
\<close>

record db_file =
  f_fresh :: bool
  f_key :: string
  f_page_size :: int
  f_sha512 :: bool
  f_user_version :: int

record toy_world =
  files :: "(string \<times> db_file) list"
  main_db :: "string option"
  conn_key :: string
  conn_page_size :: int
  conn_sha512 :: bool
  attached :: "(string \<times> string) list"
  cursors :: "string list"
  faults :: "string list"
  bad_sql :: "string list"
  cipher_version :: string

definition starts_with :: "string \<Rightarrow> string \<Rightarrow> bool" where
  "starts_with p s = (take (length p) s = p)"

definition readable :: "toy_world \<Rightarrow> bool" where
  "readable w =
     (case main_db w of
        None \<Rightarrow> False
      | Some p \<Rightarrow>
          (case map_of (files w) p of
             None \<Rightarrow> False
           | Some f \<Rightarrow>
               f_key f = conn_key w
               \<and> (f_key f = [] \<or> f_page_size f = conn_page_size w \<and> f_sha512 f = conn_sha512 w)))"

definition adopt :: "toy_world \<Rightarrow> toy_world" where
  "adopt w =
     (case main_db w of
        None \<Rightarrow> w
      | Some p \<Rightarrow>
          w\<lparr>files := map (\<lambda>(q, f). if q = p \<and> f_fresh f then
                                   (q, f\<lparr>f_fresh := False, f_key := conn_key w,
                                         f_page_size := conn_page_size w,
                                         f_sha512 := conn_sha512 w\<rparr>)
                                 else (q, f)) (files w)\<rparr>)"

definition main_user_version :: "toy_world \<Rightarrow> int" where
  "main_user_version w =
     (case main_db w of
        None \<Rightarrow> 0
      | Some p \<Rightarrow> (case map_of (files w) p of None \<Rightarrow> 0 | Some f \<Rightarrow> f_user_version f))"

definition update_file :: "string \<Rightarrow> (db_file \<Rightarrow> db_file) \<Rightarrow> toy_world \<Rightarrow> toy_world" where
  "update_file p g w = w\<lparr>files := map (\<lambda>(q, f). if q = p then (q, g f) else (q, f)) (files w)\<rparr>"

text \<open>The key between the quotes of \<open>"x'...'"\<close>; an empty key is written \<open>''\<close>.\<close>

definition key_of_literal :: "string \<Rightarrow> string" where
  "key_of_literal s = (if starts_with [dquote] s then takeWhile (\<lambda>c. c \<noteq> quote) (drop 3 s) else [])"

definition yields_row :: "string \<Rightarrow> bool" where
  "yields_row stmt =
     (stmt = ''PRAGMA cipher_version'' \<or> stmt = ''PRAGMA user_version''
      \<or> stmt = ''SELECT count(*) FROM sqlite_master'')"

definition one_row :: "toy_world \<Rightarrow> string \<Rightarrow> int \<times> toy_world" where
  "one_row w stmt =
     (if stmt \<in> set (cursors w) then (SQLITE_DONE, w\<lparr>cursors := removeAll stmt (cursors w)\<rparr>)
      else (SQLITE_ROW, w\<lparr>cursors := stmt # cursors w\<rparr>))"

text \<open>\<open>PRAGMA target = value\<close>, the target with or without a schema name in front.\<close>

definition set_pragma :: "toy_world \<Rightarrow> string \<Rightarrow> string \<Rightarrow> int \<times> toy_world" where
  "set_pragma w target val =
     (let schema = takeWhile (\<lambda>c. c \<noteq> CHR ''.'') target;
          name = drop (length schema + 1) target
      in if name = [] then
           (if target = ''key'' then (SQLITE_DONE, w\<lparr>conn_key := key_of_literal val\<rparr>)
            else if target = ''cipher_page_size'' then
              (SQLITE_DONE, w\<lparr>conn_page_size := toInt val\<rparr>)
            else if target = ''cipher_hmac_algorithm'' then
              (SQLITE_DONE, w\<lparr>conn_sha512 := (val = ''HMAC_SHA512'')\<rparr>)
            else if target = ''rekey'' then
              (if readable (adopt w) then
                 (SQLITE_DONE,
                  (update_file (the (main_db w))
                     (\<lambda>f. f\<lparr>f_key := key_of_literal val, f_page_size := conn_page_size w,
                            f_sha512 := conn_sha512 w\<rparr>) (adopt w))
                    \<lparr>conn_key := key_of_literal val\<rparr>)
               else (26, w))
            else (SQLITE_DONE, w))
         else
           (case map_of (attached w) schema of
              None \<Rightarrow> (SQLITE_ERROR, w)
            | Some p \<Rightarrow>
                if name = ''cipher_page_size'' then
                  (SQLITE_DONE, update_file p (\<lambda>f. f\<lparr>f_page_size := toInt val\<rparr>) w)
                else if name = ''cipher_hmac_algorithm'' then
                  (SQLITE_DONE, update_file p (\<lambda>f. f\<lparr>f_sha512 := (val = ''HMAC_SHA512'')\<rparr>) w)
                else if name = ''user_version'' then
                  (SQLITE_DONE, update_file p (\<lambda>f. f\<lparr>f_user_version := toInt val\<rparr>) w)
                else (SQLITE_DONE, w)))"

text \<open>\<open>ATTACH DATABASE 'path' AS alias KEY key\<close> creates the file with that key.\<close>

definition attach :: "toy_world \<Rightarrow> string \<Rightarrow> int \<times> toy_world" where
  "attach w args =
     (let p = takeWhile (\<lambda>c. c \<noteq> quote) (drop 1 args);
          r1 = drop (length p + 6) args;
          alias = takeWhile (\<lambda>c. c \<noteq> CHR '' '') r1;
          k = key_of_literal (drop (length alias + 5) r1)
      in if map_of (files w) p \<noteq> None then (SQLITE_ERROR, w)
         else (SQLITE_DONE,
               w\<lparr>files := (p, \<lparr>f_fresh = False, f_key = k, f_page_size = 4096,
                                f_sha512 = True, f_user_version = 0\<rparr>) # files w,
                  attached := (alias, p) # attached w\<rparr>))"

definition toy_step :: "toy_world \<Rightarrow> string \<Rightarrow> int \<times> toy_world" where
  "toy_step w stmt =
     (if list_ex (\<lambda>f. starts_with f stmt) (faults w) then (SQLITE_ERROR, w)
      else if stmt = ''PRAGMA cipher_version'' then one_row w stmt
      else if starts_with ''PRAGMA '' stmt \<and> CHR ''='' \<in> set stmt then
        (let target = takeWhile (\<lambda>c. c \<noteq> CHR '' '') (drop 7 stmt)
         in set_pragma w target (drop (7 + length target + 3) stmt))
      else if \<not> readable (adopt w) then (26, w)
      else if yields_row stmt then one_row (adopt w) stmt
      else if starts_with ''ATTACH DATABASE '' stmt then attach (adopt w) (drop 16 stmt)
      else if starts_with ''DETACH DATABASE '' stmt then
        (SQLITE_DONE,
         (adopt w)\<lparr>attached := filter (\<lambda>(a, p). a \<noteq> drop 16 stmt) (attached w)\<rparr>)
      else (SQLITE_DONE, adopt w))"

definition toy_prepare :: "toy_world \<Rightarrow> string \<Rightarrow> int \<times> string \<times> nat \<times> toy_world" where
  "toy_prepare w text =
     (let stmt = takeWhile (\<lambda>c. c \<noteq> CHR '';'') text
      in (if list_ex (\<lambda>f. starts_with f stmt) (bad_sql w) then SQLITE_ERROR else SQLITE_OK,
          stmt, min (length text) (length stmt + 1), w))"

definition toy_column :: "toy_world \<Rightarrow> string \<Rightarrow> nat \<Rightarrow> column" where
  "toy_column w stmt i =
     (if stmt = ''PRAGMA cipher_version'' then ColText (cipher_version w)
      else if stmt = ''PRAGMA user_version'' then ColInteger (main_user_version w)
      else ColInteger 0)"

definition toy_open :: "toy_world \<Rightarrow> string \<Rightarrow> int \<times> bool \<times> toy_world" where
  "toy_open w p =
     (if p = [] then (14, True, w)
      else (SQLITE_OK, True,
            w\<lparr>main_db := Some p, conn_key := [], conn_page_size := 4096, conn_sha512 := True,
               files := (if map_of (files w) p = None then
                           (p, \<lparr>f_fresh = True, f_key = [], f_page_size = 4096,
                                f_sha512 = True, f_user_version = 0\<rparr>) # files w
                         else files w)\<rparr>))"

definition toy_rename :: "toy_world \<Rightarrow> string \<Rightarrow> string \<Rightarrow> bool \<times> toy_world" where
  "toy_rename w a b =
     (if map_of (files w) a \<noteq> None \<and> map_of (files w) b = None then
        (True, w\<lparr>files := map (\<lambda>(q, f). if q = a then (b, f) else (q, f)) (files w)\<rparr>)
      else (False, w))"

definition toy_copy :: "toy_world \<Rightarrow> string \<Rightarrow> string \<Rightarrow> bool \<times> toy_world" where
  "toy_copy w a b =
     (case map_of (files w) a of
        None \<Rightarrow> (False, w)
      | Some f \<Rightarrow> if map_of (files w) b = None then (True, w\<lparr>files := (b, f) # files w\<rparr>)
                  else (False, w))"

text \<open>
  The decoder of the small engine: the length of a character is read off its first byte;
  a byte that starts no character, or whose continuation bytes are missing, gives the
  replacement character \<open>U+FFFD\<close>.
\<close>

definition utf8_length :: "char \<Rightarrow> nat" where
  "utf8_length c =
     (let b = (of_char c :: int)
      in if b < 0x80 then 1
         else if 0xC2 \<le> b \<and> b < 0xE0 then 2
         else if 0xE0 \<le> b \<and> b < 0xF0 then 3
         else if 0xF0 \<le> b \<and> b < 0xF5 then 4
         else 0)"

definition is_continuation :: "char \<Rightarrow> bool" where
  "is_continuation c = (0x80 \<le> (of_char c :: int) \<and> (of_char c :: int) < 0xC0)"

function toy_fromUtf8 :: "string \<Rightarrow> qchar list" where
  "toy_fromUtf8 [] = []"
| "toy_fromUtf8 (c # cs) =
     (if utf8_length c = 0 \<or> length cs < utf8_length c - 1
         \<or> \<not> list_all is_continuation (take (utf8_length c - 1) cs)
      then [CHR 0xEF, CHR 0xBF, CHR 0xBD] # toy_fromUtf8 cs
      else (c # take (utf8_length c - 1) cs) # toy_fromUtf8 (drop (utf8_length c - 1) cs))"
  by pat_completeness auto
termination
  by (relation "measure length") auto

definition toy :: "(toy_world, string) engine" where
  "toy =
     \<lparr>sqlite3_prepare_v2 = toy_prepare,
      sqlite3_bind_parameter_count = (\<lambda>stmt. length (filter (\<lambda>c. c = CHR ''?'') stmt)),
      sqlite3_bind_blob = (\<lambda>w stmt i blob. (SQLITE_OK, w)),
      sqlite3_column_count = (\<lambda>stmt. if yields_row stmt then 1 else 0),
      sqlite3_step = toy_step,
      sqlite3_column = toy_column,
      sqlite3_last_insert_rowid = (\<lambda>w. 0),
      sqlite3_finalize = (\<lambda>w stmt. w\<lparr>cursors := removeAll stmt (cursors w)\<rparr>),
      sqlite3_errcode = (\<lambda>w. SQLITE_ERROR),
      sqlite3_errmsg = (\<lambda>w. ''error''),
      sqlite3_open_v2 = toy_open,
      sqlite3_create_function = (\<lambda>w name. (SQLITE_OK, w)),
      sqlite3_close = (\<lambda>w. (SQLITE_OK, w\<lparr>main_db := None, attached := [], cursors := []\<rparr>)),
      file_exists = (\<lambda>w p. map_of (files w) p \<noteq> None),
      file_remove = (\<lambda>w p. (map_of (files w) p \<noteq> None,
                              w\<lparr>files := filter (\<lambda>(q, f). q \<noteq> p) (files w)\<rparr>)),
      file_rename = toy_rename,
      file_copy = toy_copy,
      tox_pass_key_derive_with_salt = (\<lambda>password salt. take 32 salt @ take 32 (password @ salt)),
      fromUtf8 = toy_fromUtf8,
      indeterminate = (\<lambda>w. 0)\<rparr>"

definition toy_world0 :: toy_world where
  "toy_world0 =
     \<lparr>files = [], main_db = None, conn_key = [], conn_page_size = 4096, conn_sha512 = True,
      attached = [], cursors = [], faults = [], bad_sql = [], cipher_version = ''4.5.0''\<rparr>"

text \<open>A world with the plaintext database \<open>db\<close> open, and two transactions.\<close>

definition toy_world1 :: toy_world where
  "toy_world1 =
     toy_world0\<lparr>main_db := Some ''db'',
        files := [(''db'', \<lparr>f_fresh = False, f_key = [], f_page_size = 4096, f_sha512 = True,
                            f_user_version = 7\<rparr>)]\<rparr>"



definition toy_store :: "toy_world \<Rightarrow> (toy_world, string) impl" where
  "toy_store w =
     \<lparr>sqlite = True, path = ''db'', currentSalt = [], currentHexKey = [],
      pendingTransactions = [], world = w, logs = [], lastFinished = None\<rparr>"

text \<open>
  The database \<open>db\<close> encrypted under the key \<open>ab\<close> with the half-upgraded
  parameters, and a salt of the right length.
\<close>

definition toy_world_half :: toy_world where
  "toy_world_half =
     toy_world0\<lparr>main_db := Some ''db'',
        files := [(''db'', \<lparr>f_fresh = False, f_key = ''ab'', f_page_size = 4096,
                            f_sha512 = False, f_user_version = 7\<rparr>)]\<rparr>"

definition toy_salt :: string where
  "toy_salt = ''0123456789abcdef0123456789abcdef''"

text \<open>A plaintext database file, for worlds with more than one file.\<close>

definition plain_file :: db_file where
  "plain_file =
     \<lparr>f_fresh = False, f_key = [], f_page_size = 4096, f_sha512 = True, f_user_version = 7\<rparr>"

text \<open>The database \<open>db\<close> encrypted under the key \<open>ab\<close>, open with that key.\<close>

definition toy_world_enc :: toy_world where
  "toy_world_enc =
     toy_world0\<lparr>main_db := Some ''db'', conn_key := ''ab'',
        files := [(''db'', \<lparr>f_fresh = False, f_key = ''ab'', f_page_size = 4096,
                            f_sha512 = True, f_user_version = 7\<rparr>)]\<rparr>"

text \<open>
  The database \<open>db\<close> encrypted under the legacy key of the password \<open>pw\<close> and not
  open, and what is looked at in a store after its construction: whether it is open, the
  last line of its log, the files there are.
\<close>

definition toy_world_legacy :: toy_world where
  "toy_world_legacy =
     toy_world0\<lparr>files := [(''db'', \<lparr>f_fresh = False, f_key = deriveKey_unsalted toy ''pw'',
                            f_page_size = 4096, f_sha512 = True, f_user_version = 7\<rparr>)]\<rparr>"

definition summary :: "(toy_world, string) impl \<Rightarrow> bool \<times> log_entry \<times> string list" where
  "summary st = (sqlite st, last (logs st), map fst (files (world st)))"





section \<open>Properties\<close>

lemma clean_snoc: "clean (evs @ [e]) = (clean evs \<and> \<not> is_error e)"
  by (auto simp: clean_def list_ex_iff)

lemma stopped_snoc: "stopped (evs @ [e]) = (is_error e \<and> clean evs)"
  by (auto simp: stopped_def)

lemma clean_Nil: "clean []"
  by (simp add: clean_def)

lemma clean_Cons: "clean (e # evs) = (\<not> is_error e \<and> clean evs)"
  by (auto simp: clean_def)

lemma clean_append: "clean (as @ bs) = (clean as \<and> clean bs)"
  by (auto simp: clean_def list_ex_iff)

lemma stopped_single: "stopped [e] = is_error e"
  by (simp add: stopped_def clean_def)

lemma stopped_Cons2: "stopped (e # e' # evs) = (\<not> is_error e \<and> stopped (e' # evs))"
  by (auto simp: stopped_def clean_def)

lemma stopped_append: "bs \<noteq> [] \<Longrightarrow> stopped (as @ bs) = (clean as \<and> stopped bs)"
  by (auto simp: stopped_def clean_def butlast_append list_ex_iff)

lemmas ev_simps = clean_snoc stopped_snoc clean_Nil clean_Cons clean_append stopped_single
  stopped_Cons2 stopped_append is_error_def

lemma bindLoop_events:
  "bindLoop eng q stmt cur is x = (ok, x') \<Longrightarrow> clean (x_events x) \<Longrightarrow>
     (if ok then clean (x_events x') else stopped (x_events x'))"
proof (induction "is" arbitrary: x)
  case Nil
  then show ?case by simp
next
  case (Cons i rest)
  obtain r w1 where b: "sqlite3_bind_blob eng (x_world x) stmt (i + 1) (blobs q ! (cur + i)) = (r, w1)"
    by (cases "sqlite3_bind_blob eng (x_world x) stmt (i + 1) (blobs q ! (cur + i))")
  show ?case
  proof (cases "r = SQLITE_OK")
    case True
    with Cons.prems b have "bindLoop eng q stmt cur rest
        (x\<lparr>x_world := w1, x_events := x_events x @ [Bound (cur + i) r]\<rparr>) = (ok, x')"
      by (simp add: Let_def)
    moreover have "clean (x_events (x\<lparr>x_world := w1, x_events := x_events x @ [Bound (cur + i) r]\<rparr>))"
      using Cons.prems(2) True by (simp add: ev_simps)
    ultimately show ?thesis by (rule Cons.IH)
  next
    case False
    with Cons.prems b show ?thesis
      by (auto simp: Let_def ev_simps)
  qed
qed


lemma compileLoop_events:
  fixes eng :: "('w, 's) engine"
  assumes run: "compileLoop eng q cur tail stmts x = Some (ok, stmts', x')"
    and cl: "clean (x_events x)"
  shows "if ok then clean (x_events x') else stopped (x_events x')"
proof -
  define P where "P = (\<lambda>(eng :: ('w, 's) engine) (q :: Query) (cur :: nat) (tail :: string)
      (stmts :: 's list) (x :: ('w, 's) exec_state) (r :: bool \<times> 's list \<times> ('w, 's) exec_state).
      clean (x_events x) \<longrightarrow>
        (if fst r then clean (x_events (snd (snd r))) else stopped (x_events (snd (snd r)))))"
  have "P eng q cur tail stmts x (ok, stmts', x')"
  proof (rule compileLoop.raw_induct[where P = P and xa = "(((((eng, q), cur), tail), stmts), x)"
        and y = "(ok, stmts', x')", unfolded prod.case])
    show "compileLoop eng q cur tail stmts x = Some (ok, stmts', x')" by (rule run)
  next
    fix f :: "('w, 's) engine \<Rightarrow> Query \<Rightarrow> nat \<Rightarrow> string \<Rightarrow> 's list \<Rightarrow> ('w, 's) exec_state \<Rightarrow>
        (bool \<times> 's list \<times> ('w, 's) exec_state) option"
      and eng q cur tail stmts x r
    assume IH: "\<And>a b c d e g y. f a b c d e g = Some y \<Longrightarrow> P a b c d e g y"
    assume body: "(case sqlite3_prepare_v2 eng (x_world x) tail of
      (r, stmt, n, w1) \<Rightarrow>
        let x1 = x\<lparr>x_world := w1, x_events := x_events x @ [Prepared tail r]\<rparr>
        in if r \<noteq> SQLITE_OK
           then Some (False, stmts,
                  x1\<lparr>x_log := x_log x1 @
                       [(Warning, [''Failed to prepare statement'', toUtf8 (anonymizeQuery eng (query q)),
                          ''and returned'', show_int r]),
                        (Warning, [''The full error is'', show_int (sqlite3_errcode eng w1),
                          sqlite3_errmsg eng w1])]\<rparr>)
           else let stmts1 = stmts @ [stmt];
                    x2 = x1\<lparr>x_stmts := x_stmts x1 @ [stmt]\<rparr>;
                    nParams = sqlite3_bind_parameter_count eng stmt
                in if length (blobs q) < cur + nParams
                   then Some (False, stmts1,
                          x2\<lparr>x_events := x_events x2 @ [TooFewParams],
                               x_log := x_log x2 @
                                 [(Warning, [''Not enough parameters to bind to query '',
                                    toUtf8 (anonymizeQuery eng (query q))])]\<rparr>)
                   else case bindLoop eng q stmt cur [0..<nParams] x2 of
                        (ok, x3) \<Rightarrow>
                          if \<not> ok then Some (False, stmts1, x3)
                          else if drop n tail \<noteq> []
                               then f eng q (cur + nParams) (drop n tail) stmts1 x3
                               else Some (True, stmts1, x3)) = Some r"
    show "P eng q cur tail stmts x r"
      unfolding P_def
    proof
      assume c: "clean (x_events x)"
      obtain rc stmt n w1 where p: "sqlite3_prepare_v2 eng (x_world x) tail = (rc, stmt, n, w1)"
        by (cases "sqlite3_prepare_v2 eng (x_world x) tail") auto
      show "if fst r then clean (x_events (snd (snd r))) else stopped (x_events (snd (snd r)))"
      proof (cases "rc = SQLITE_OK")
        case False
        with body p c show ?thesis
          by (auto simp: Let_def ev_simps)
      next
        case True
        let ?x2 = "x\<lparr>x_world := w1, x_events := x_events x @ [Prepared tail rc],
                     x_stmts := x_stmts x @ [stmt]\<rparr>"
        have c2: "clean (x_events ?x2)"
          using c True by (simp add: ev_simps)
        show ?thesis
        proof (cases "length (blobs q) < cur + sqlite3_bind_parameter_count eng stmt")
          case True
          with body p \<open>rc = SQLITE_OK\<close> c2 show ?thesis
            by (auto simp: Let_def ev_simps)
        next
          case False
          obtain bok x3 where b: "bindLoop eng q stmt cur
              [0..<sqlite3_bind_parameter_count eng stmt] ?x2 = (bok, x3)"
            by (cases "bindLoop eng q stmt cur [0..<sqlite3_bind_parameter_count eng stmt] ?x2")
          from bindLoop_events[OF b c2] have c3: "if bok then clean (x_events x3) else stopped (x_events x3)" .
          show ?thesis
          proof (cases bok)
            case False
            with body p \<open>rc = SQLITE_OK\<close> \<open>\<not> length (blobs q) < cur + sqlite3_bind_parameter_count eng stmt\<close> b c3
            show ?thesis by (auto simp: Let_def)
          next
            case True
            show ?thesis
            proof (cases "drop n tail \<noteq> []")
              case True
              with body p \<open>rc = SQLITE_OK\<close> \<open>\<not> length (blobs q) < cur + sqlite3_bind_parameter_count eng stmt\<close> b \<open>bok\<close>
              have "f eng q (cur + sqlite3_bind_parameter_count eng stmt) (drop n tail) (stmts @ [stmt]) x3 = Some r"
                by (auto simp: Let_def)
              from IH[OF this] c3 \<open>bok\<close> show ?thesis by (simp add: P_def)
            next
              case False
              with body p \<open>rc = SQLITE_OK\<close> \<open>\<not> length (blobs q) < cur + sqlite3_bind_parameter_count eng stmt\<close> b \<open>bok\<close> c3
              show ?thesis by (auto simp: Let_def)
            qed
          qed
        qed
      qed
    qed
  qed
  with cl show ?thesis by (auto simp: P_def split: if_splits)
qed

lemma stepLoop_events:
  fixes eng :: "('w, 's) engine"
  assumes run: "stepLoop eng q stmt n x = Some (result, x')"
    and cl: "clean (x_events x)"
  shows "result \<noteq> SQLITE_ROW \<and>
     (if result = SQLITE_DONE then clean (x_events x') else stopped (x_events x'))"
proof -
  define P where "P = (\<lambda>(eng :: ('w, 's) engine) (q :: Query) (stmt :: 's) (n :: nat)
      (x :: ('w, 's) exec_state) (r :: int \<times> ('w, 's) exec_state).
      clean (x_events x) \<longrightarrow> fst r \<noteq> SQLITE_ROW \<and>
        (if fst r = SQLITE_DONE then clean (x_events (snd r)) else stopped (x_events (snd r))))"
  have "P eng q stmt n x (result, x')"
  proof (rule stepLoop.raw_induct[where P = P and xa = "((((eng, q), stmt), n), x)"
        and y = "(result, x')", unfolded prod.case])
    show "stepLoop eng q stmt n x = Some (result, x')" by (rule run)
  next
    fix f :: "('w, 's) engine \<Rightarrow> Query \<Rightarrow> 's \<Rightarrow> nat \<Rightarrow> ('w, 's) exec_state \<Rightarrow>
        (int \<times> ('w, 's) exec_state) option"
      and eng q stmt column_count x r
    assume IH: "\<And>a b c d e y. f a b c d e = Some y \<Longrightarrow> P a b c d e y"
    assume body: "(case sqlite3_step eng (x_world x) stmt of
        (result, w1) \<Rightarrow>
          let x1 = x\<lparr>x_world := w1, x_events := x_events x @ [Stepped stmt result]\<rparr>;
              x2 = (if result = SQLITE_ROW \<and> rowCallback q then
                      x1\<lparr>x_events := x_events x1 @
                        [RowCallback (map (extractData eng w1 stmt) [0..<column_count])]\<rparr>
                    else x1)
          in if result = SQLITE_ROW then f eng q stmt column_count x2
             else Some (result, x2)) = Some r"
    show "P eng q stmt column_count x r"
      unfolding P_def
    proof
      assume c: "clean (x_events x)"
      obtain rc w1 where p: "sqlite3_step eng (x_world x) stmt = (rc, w1)"
        by (cases "sqlite3_step eng (x_world x) stmt")
      show "fst r \<noteq> SQLITE_ROW \<and>
        (if fst r = SQLITE_DONE then clean (x_events (snd r)) else stopped (x_events (snd r)))"
      proof (cases "rc = SQLITE_ROW")
        case False
        with body p c show ?thesis
          by (auto simp: Let_def ev_simps)
      next
        case True
        let ?x2 = "(if rowCallback q then
                      x\<lparr>x_world := w1, x_events := x_events x @ [Stepped stmt rc,
                        RowCallback (map (extractData eng w1 stmt) [0..<column_count])]\<rparr>
                    else x\<lparr>x_world := w1, x_events := x_events x @ [Stepped stmt rc]\<rparr>)"
        from body p True have "f eng q stmt column_count ?x2 = Some r"
          by (auto simp: Let_def split: if_splits)
        from IH[OF this] have "P eng q stmt column_count ?x2 r" .
        moreover have "clean (x_events ?x2)"
          using c True by (simp add: ev_simps)
        ultimately show ?thesis by (simp add: P_def)
      qed
    qed
  qed
  with cl show ?thesis by (auto simp: P_def split: if_splits)
qed

lemma executeStatements_events:
  "executeStatements eng q stmts x = Some (ok, x') \<Longrightarrow> clean (x_events x) \<Longrightarrow>
     (if ok then clean (x_events x') else stopped (x_events x'))"
proof (induction stmts arbitrary: x)
  case Nil
  then show ?case by simp
next
  case (Cons stmt rest)
  from Cons.prems(1) obtain result x1 where
    s: "stepLoop eng q stmt (sqlite3_column_count eng stmt) x = Some (result, x1)"
    by (auto split: option.splits)
  from stepLoop_events[OF s Cons.prems(2)]
  have r: "result \<noteq> SQLITE_ROW"
    and c1: "if result = SQLITE_DONE then clean (x_events x1) else stopped (x_events x1)"
    by simp_all
  show ?case
  proof (cases "result = SQLITE_DONE")
    case True
    with Cons.prems(1) s have "executeStatements eng q rest x1 = Some (ok, x')" by simp
    moreover from c1 True have "clean (x_events x1)" by simp
    ultimately show ?thesis by (rule Cons.IH)
  next
    case False
    with Cons.prems(1) s c1 show ?thesis by auto
  qed
qed

lemma runQueries_events:
  "runQueries eng qs x = Some (ok, x') \<Longrightarrow> clean (x_events x) \<Longrightarrow>
     (if ok then clean (x_events x') else stopped (x_events x'))"
proof (induction qs arbitrary: x)
  case Nil
  then show ?case by simp
next
  case (Cons q rest)
  from Cons.prems(1) obtain compiled stmts x1 where
    c: "compileLoop eng q 0 (query q) [] x = Some (compiled, stmts, x1)"
    by (auto split: option.splits)
  note c1 = compileLoop_events[OF c Cons.prems(2)]
  show ?case
  proof (cases compiled)
    case False
    with Cons.prems(1) c c1 show ?thesis by auto
  next
    case True
    with Cons.prems(1) c obtain executed x2 where
      e: "executeStatements eng q stmts x1 = Some (executed, x2)"
      by (auto split: option.splits)
    from c1 True have "clean (x_events x1)" by simp
    note e1 = executeStatements_events[OF e this]
    show ?thesis
    proof (cases executed)
      case False
      with Cons.prems(1) c e \<open>compiled\<close> e1 show ?thesis by auto
    next
      case True
      let ?x3 = "(if insertCallback q then
                    x2\<lparr>x_events := x_events x2 @
                      [InsertCallback (sqlite3_last_insert_rowid eng (x_world x2))]\<rparr>
                  else x2)"
      from Cons.prems(1) c e \<open>compiled\<close> True have "runQueries eng rest ?x3 = Some (ok, x')"
        by simp
      moreover from e1 True have "clean (x_events ?x3)" by (simp add: ev_simps)
      ultimately show ?thesis by (rule Cons.IH)
    qed
  qed
qed

lemma compileAndExecute_run:
  "compileAndExecute eng w t =
     map_option
       (\<lambda>(fin, x).
          (t\<lparr>queries := addTransactionCommands (queries t),
             success_flag := map_option (\<lambda>_. fin) (success_flag t)\<rparr>, x))
       (runQueries eng (addTransactionCommands (queries t)) (exec_start w))"
  by (cases "runQueries eng (addTransactionCommands (queries t)) (exec_start w)")
     (auto simp: compileAndExecute_def Let_def option.map_comp comp_def)

lemma compileAndExecute_events:
  assumes "compileAndExecute eng w t = Some (t', x)"
  shows "success_flag t' = map_option (\<lambda>_. clean (x_events x)) (success_flag t)
    \<and> (clean (x_events x) \<or> stopped (x_events x))
    \<and> done_flag t' = done_flag t"
proof -
  from assms obtain fin where
    r: "runQueries eng (addTransactionCommands (queries t)) (exec_start w) = Some (fin, x)"
    and t': "t' = t\<lparr>queries := addTransactionCommands (queries t),
          success_flag := map_option (\<lambda>_. fin) (success_flag t)\<rparr>"
    unfolding compileAndExecute_run
    by (cases "runQueries eng (addTransactionCommands (queries t)) (exec_start w)") auto
  have "clean (x_events (exec_start w :: ('a, 'b) exec_state))"
    by (simp add: exec_start_def clean_Nil)
  from runQueries_events[OF r this]
  have e: "if fin then clean (x_events x) else stopped (x_events x)" .
  have ns: "stopped (x_events x) \<Longrightarrow> \<not> clean (x_events x)"
    by (auto simp: stopped_def clean_def list_ex_iff)
  show ?thesis
  proof (cases fin)
    case True
    with e t' show ?thesis by simp
  next
    case False
    with e ns t' show ?thesis by simp
  qed
qed










lemma processLoop_kept:
  "processLoop eng ts st = Some st' \<Longrightarrow>
     sqlite st' = sqlite st \<and> path st' = path st \<and> currentSalt st' = currentSalt st
     \<and> currentHexKey st' = currentHexKey st
     \<and> pendingTransactions st' = (if ts = [] then pendingTransactions st else [])"
proof (induction ts arbitrary: st)
  case Nil
  then show ?case by simp
next
  case (Cons t ts)
  from Cons.prems obtain t1 x where
    c: "compileAndExecute eng (world st) t = Some (t1, x)"
    by (auto split: option.splits)
  let ?st1 = "st\<lparr>pendingTransactions := ts,
      world := fold (\<lambda>stmt w. sqlite3_finalize eng w stmt) (x_stmts x) (x_world x),
      logs := logs st @ x_log x,
      lastFinished :=
        Some (t1\<lparr>done_flag := map_option (\<lambda>_. True) (done_flag t1)\<rparr>, x_events x)\<rparr>"
  from Cons.prems c have "processLoop eng ts ?st1 = Some st'" by simp
  from Cons.IH[OF this] show ?case by (auto split: if_splits)
qed

lemma process_kept:
  "process eng st = Some st' \<Longrightarrow>
     sqlite st' = sqlite st \<and> path st' = path st \<and> currentSalt st' = currentSalt st
     \<and> currentHexKey st' = currentHexKey st"
  by (auto simp: process_def dest: processLoop_kept split: if_splits)

lemma processLoop_last:
  "processLoop eng ts st = Some st' \<Longrightarrow> ts \<noteq> [] \<Longrightarrow>
     \<exists>w t1 x. compileAndExecute eng w (last ts) = Some (t1, x)
       \<and> lastFinished st' =
           Some (t1\<lparr>done_flag := map_option (\<lambda>_. True) (done_flag t1)\<rparr>, x_events x)"
proof (induction ts arbitrary: st)
  case Nil
  then show ?case by simp
next
  case (Cons t ts)
  from Cons.prems(1) obtain t1 x where
    c: "compileAndExecute eng (world st) t = Some (t1, x)"
    by (auto split: option.splits)
  let ?st1 = "st\<lparr>pendingTransactions := ts,
      world := fold (\<lambda>stmt w. sqlite3_finalize eng w stmt) (x_stmts x) (x_world x),
      logs := logs st @ x_log x,
      lastFinished :=
        Some (t1\<lparr>done_flag := map_option (\<lambda>_. True) (done_flag t1)\<rparr>, x_events x)\<rparr>"
  from Cons.prems(1) c have p: "processLoop eng ts ?st1 = Some st'" by simp
  show ?case
  proof (cases "ts = []")
    case True
    with p have "st' = ?st1" by simp
    with c True show ?thesis by auto
  next
    case False
    from Cons.IH[OF p False] False show ?thesis by simp
  qed
qed

lemma execNow_returns:
  assumes op: "sqlite st"
    and p: "process eng (st\<lparr>pendingTransactions := pendingTransactions st @
          [\<lparr>queries = qs, success_flag = Some False, done_flag = Some False\<rparr>]\<rparr>) = Some st1"
  shows "\<exists>evs. execNow eng st qs = Some ((clean evs, evs), st1) \<and> (clean evs \<or> stopped evs)"
proof -
  let ?tr = "\<lparr>queries = qs, success_flag = Some False, done_flag = Some False\<rparr>"
  from p op have "processLoop eng (pendingTransactions st @ [?tr])
      (st\<lparr>pendingTransactions := pendingTransactions st @ [?tr]\<rparr>) = Some st1"
    by (simp add: process_def)
  from processLoop_last[OF this] obtain w t1 x where
    c: "compileAndExecute eng w ?tr = Some (t1, x)"
    and l: "lastFinished st1 =
      Some (t1\<lparr>done_flag := map_option (\<lambda>_. True) (done_flag t1)\<rparr>, x_events x)"
    by auto
  from compileAndExecute_events[OF c]
  have s: "success_flag t1 = Some (clean (x_events x))"
    and e: "clean (x_events x) \<or> stopped (x_events x)" and d: "done_flag t1 = Some False"
    by simp_all
  from op p l s d have "execNow eng st qs = Some ((clean (x_events x), x_events x), st1)"
    by (simp add: execNow_def)
  with e show ?thesis by blast
qed

text \<open>
  C2. A compile, bind or step error is the last thing a transaction does: no statement is
  compiled, bound or stepped and no callback runs after it, and the success flag of the
  transaction, set to false at the start, is never set to true. \<open>execNow\<close>, once the
  worker has drained the queue, returns, and it returns false exactly when an error
  occurred.
\<close>

theorem C2_error_fails_transaction:
  "(compileAndExecute eng w t = Some (t', x) \<longrightarrow>
      success_flag t' = map_option (\<lambda>_. \<not> list_ex is_error (x_events x)) (success_flag t)
      \<and> (list_ex is_error (x_events x) \<longrightarrow>
           is_error (last (x_events x)) \<and> \<not> list_ex is_error (butlast (x_events x))))
   \<and> (sqlite st
       \<and> process eng (st\<lparr>pendingTransactions := pendingTransactions st @
            [\<lparr>queries = qs, success_flag = Some False, done_flag = Some False\<rparr>]\<rparr>) = Some st1 \<longrightarrow>
       (\<exists>evs. execNow eng st qs = Some ((\<not> list_ex is_error evs, evs), st1)
          \<and> (list_ex is_error evs \<longrightarrow>
               is_error (last evs) \<and> \<not> list_ex is_error (butlast evs))))"
proof (intro conjI impI)
  assume c: "compileAndExecute eng w t = Some (t', x)"
  from compileAndExecute_events[OF c]
  show "success_flag t' = map_option (\<lambda>_. \<not> list_ex is_error (x_events x)) (success_flag t)"
    by (simp add: clean_def)
  assume "list_ex is_error (x_events x)"
  with compileAndExecute_events[OF c]
  show "is_error (last (x_events x))" and "\<not> list_ex is_error (butlast (x_events x))"
    by (auto simp: clean_def stopped_def)
next
  assume "sqlite st
       \<and> process eng (st\<lparr>pendingTransactions := pendingTransactions st @
            [\<lparr>queries = qs, success_flag = Some False, done_flag = Some False\<rparr>]\<rparr>) = Some st1"
  then have "\<exists>evs. execNow eng st qs = Some ((clean evs, evs), st1) \<and> (clean evs \<or> stopped evs)"
    by (intro execNow_returns) simp_all
  then show "\<exists>evs. execNow eng st qs = Some ((\<not> list_ex is_error evs, evs), st1)
          \<and> (list_ex is_error evs \<longrightarrow>
               is_error (last evs) \<and> \<not> list_ex is_error (butlast evs))"
    by (auto simp: clean_def stopped_def)
qed

theorem C2_witness:
  "sqlite (toy_store (toy_world1\<lparr>faults := [''SELECT 2'']\<rparr>))
   \<and> process toy ((toy_store (toy_world1\<lparr>faults := [''SELECT 2'']\<rparr>))
         \<lparr>pendingTransactions := [\<lparr>queries = [mkQuery ''SELECT 1;'', mkQuery ''SELECT 2;''],
            success_flag = Some False, done_flag = Some False\<rparr>]\<rparr>) \<noteq> None
   \<and> map_option fst (execNow toy (toy_store (toy_world1\<lparr>faults := [''SELECT 2'']\<rparr>))
         [mkQuery ''SELECT 1;'', mkQuery ''SELECT 2;''])
       = Some (False,
           [Prepared ''BEGIN;'' SQLITE_OK, Stepped ''BEGIN'' SQLITE_DONE,
            Prepared ''SELECT 1;'' SQLITE_OK, Stepped ''SELECT 1'' SQLITE_DONE,
            Prepared ''SELECT 2;'' SQLITE_OK, Stepped ''SELECT 2'' SQLITE_ERROR])"
proof -
  let ?st = "toy_store (toy_world1\<lparr>faults := [''SELECT 2'']\<rparr>)"
  let ?qs = "[mkQuery ''SELECT 1;'', mkQuery ''SELECT 2;'']"
  have a: "sqlite ?st"
    by (simp add: toy_store_def)
  have b: "process toy (?st\<lparr>pendingTransactions :=
      [\<lparr>queries = ?qs, success_flag = Some False, done_flag = Some False\<rparr>]\<rparr>) \<noteq> None"
    by code_simp
  have c: "map_option fst (execNow toy ?st ?qs)
       = Some (False,
           [Prepared ''BEGIN;'' SQLITE_OK, Stepped ''BEGIN'' SQLITE_DONE,
            Prepared ''SELECT 1;'' SQLITE_OK, Stepped ''SELECT 1'' SQLITE_DONE,
            Prepared ''SELECT 2;'' SQLITE_OK, Stepped ''SELECT 2'' SQLITE_ERROR])"
    by code_simp
  have p: "pendingTransactions ?st = []"
    by (simp add: toy_store_def)
  from b p obtain st1 where "process toy (?st\<lparr>pendingTransactions := pendingTransactions ?st @
      [\<lparr>queries = ?qs, success_flag = Some False, done_flag = Some False\<rparr>]\<rparr>) = Some st1"
    by auto
  with a C2_error_fails_transaction [of toy _ _ _ _ ?st ?qs st1]
  have "\<exists>evs. execNow toy ?st ?qs = Some ((\<not> list_ex is_error evs, evs), st1)"
    by blast
  then show ?thesis
    using a b c by simp
qed

text \<open>
  C3 (as amended). Given what the query \<open>PRAGMA cipher_version\<close> returned,
  \<open>highestSupportedParams\<close> returns the half-upgraded generation for major version 3
  and the current one for major version 4 exactly. For every other version, and when the
  query failed, it writes a critical line to the log and returns the original generation
  \<open>p3_0\<close>, which its caller then takes as the highest supported one.
\<close>

theorem C3_highest_supported_params:
  "execNowQuery eng st cipherVersionQuery = Some ((ok, evs), st1) \<longrightarrow>
     highestSupportedParams eng st =
       Some (if \<not> ok then (p3_0, say Critical [''Failed to read cipher_version''] st1)
             else if reportedMajorVersion evs = 3 then
               (halfUpgradedTo4,
                say Debug [''Highest supported SQLCipher params on this system are'',
                  paramsName halfUpgradedTo4] st1)
             else if reportedMajorVersion evs = 4 then
               (p4_0,
                say Debug [''Highest supported SQLCipher params on this system are'',
                  paramsName p4_0] st1)
             else (p3_0, say Critical [''Unsupported SQLCipher version detected!''] st1))"
  by (simp add: highestSupportedParams_def paramsOfMajorVersion_def)

theorem C3_counterexample:
  "toInt (firstDotField ''5.0.0'') = 5
   \<and> map_option fst
        (highestSupportedParams toy (toy_store (toy_world1\<lparr>cipher_version := ''5.0.0''\<rparr>)))
       = Some p3_0"
  by code_simp

theorem C3_witness:
  "execNowQuery toy (toy_store toy_world1) cipherVersionQuery \<noteq> None
   \<and> map_option fst (highestSupportedParams toy (toy_store toy_world1)) = Some p4_0
   \<and> map_option fst
        (highestSupportedParams toy (toy_store (toy_world1\<lparr>cipher_version := ''3.20.1''\<rparr>)))
       = Some halfUpgradedTo4"
proof -
  have a: "execNowQuery toy (toy_store toy_world1) cipherVersionQuery \<noteq> None"
    by code_simp
  have b: "map_option fst (highestSupportedParams toy (toy_store toy_world1)) = Some p4_0"
    by code_simp
  have c: "map_option fst
        (highestSupportedParams toy (toy_store (toy_world1\<lparr>cipher_version := ''3.20.1''\<rparr>)))
       = Some halfUpgradedTo4"
    by code_simp
  from a obtain ok evs st1 where
    "execNowQuery toy (toy_store toy_world1) cipherVersionQuery = Some ((ok, evs), st1)"
    by (cases "execNowQuery toy (toy_store toy_world1) cipherVersionQuery") auto
  with C3_highest_supported_params [of toy "toy_store toy_world1" ok evs st1]
  have "highestSupportedParams toy (toy_store toy_world1) \<noteq> None"
    by (simp only: option.distinct simp_thms)
  then show ?thesis
    using a b c by (simp only: simp_thms)
qed

lemma readSavedLoop_probes:
  "readSavedLoop eng hexKey ps st = Some ((found, probes), st') \<Longrightarrow>
     map fst probes = take (length probes) ps
     \<and> list_all (\<lambda>(g, res). res = Unusable) (butlast probes)
     \<and> (case found of
          Some g \<Rightarrow> probes \<noteq> [] \<and> last probes = (g, Usable)
        | None \<Rightarrow> list_all (\<lambda>(g, res). res \<noteq> Usable) probes)"
proof (induction ps arbitrary: st found probes st')
  case Nil
  then show ?case by simp
next
  case (Cons p ps)
  from Cons.prems obtain res st1 where pr: "probeGeneration eng st hexKey p = Some (res, st1)"
    by (cases "probeGeneration eng st hexKey p") auto
  show ?case
  proof (cases res)
    case Usable
    with Cons.prems pr show ?thesis by auto
  next
    case Aborted
    with Cons.prems pr show ?thesis by auto
  next
    case Unusable
    with Cons.prems pr obtain found1 probes1 where
      rec: "readSavedLoop eng hexKey ps st1 = Some ((found1, probes1), st')"
      and eq: "found = found1" "probes = (p, Unusable) # probes1"
      by (cases "readSavedLoop eng hexKey ps st1") auto
    from Cons.IH[OF rec] eq show ?thesis
      by (cases found1; cases probes1) auto
  qed
qed

text \<open>
  C4 (as amended). \<open>readSavedCipherParams\<close> goes through the generations below the target
  in order, oldest first. For each one it sets the key, applies the pragmas of that
  generation and runs the usability query: when the key or the pragmas cannot be set the
  loop is left at once, the later generations unprobed; when the query succeeds the
  generation is returned, with the store as the query left it; otherwise the loop goes on
  with the next generation. Every probe before the last found the store unusable. When the
  loop ends without a usable generation, a critical line is logged and \<open>p3_0\<close> comes back.
  The generations below the target are listed for each target.
\<close>

theorem C4_read_saved_cipher_params:
  "(readSavedCipherParams eng st hexKey newParams = Some (p, st') \<longrightarrow>
      (\<exists>found probes st1.
         readSavedLoop eng hexKey (generationsBelow newParams) st = Some ((found, probes), st1)
         \<and> map fst probes = take (length probes) (generationsBelow newParams)
         \<and> list_all (\<lambda>(g, res). res = Unusable) (butlast probes)
         \<and> (case found of
              Some g \<Rightarrow> probes \<noteq> [] \<and> last probes = (g, Usable) \<and> p = g \<and> st' = st1
            | None \<Rightarrow>
                list_all (\<lambda>(g, res). res \<noteq> Usable) probes \<and> p = p3_0
                \<and> st' = say Critical [''Failed to check saved SQLCipher params''] st1)))
   \<and> readSavedLoop eng hexKey [] s = Some ((None, []), s)
   \<and> (readSavedLoop eng hexKey (g # gs) s = Some ((found, probes), s') \<longrightarrow>
        (\<exists>keyed s1.
           setKey eng s hexKey = Some (keyed, s1)
           \<and> (if \<not> keyed then found = None \<and> probes = [(g, Aborted)] \<and> s' = s1
               else \<exists>configured s2.
                  setCipherParameters eng s1 g None = Some (configured, s2)
                  \<and> (if \<not> configured then found = None \<and> probes = [(g, Aborted)] \<and> s' = s2
                      else \<exists>usable s3.
                         testUsable eng s2 = Some (usable, s3)
                         \<and> (if usable then found = Some g \<and> probes = [(g, Usable)] \<and> s' = s3
                             else \<exists>rest. probes = (g, Unusable) # rest
                                \<and> readSavedLoop eng hexKey gs s3 = Some ((found, rest), s'))))))
   \<and> generationsBelow p3_0 = []
   \<and> generationsBelow halfUpgradedTo4 = [p3_0]
   \<and> generationsBelow p4_0 = [p3_0, halfUpgradedTo4]"
proof (intro conjI impI)
  assume r: "readSavedCipherParams eng st hexKey newParams = Some (p, st')"
  then obtain found probes st1 where
    l: "readSavedLoop eng hexKey (generationsBelow newParams) st = Some ((found, probes), st1)"
    by (cases "readSavedLoop eng hexKey (generationsBelow newParams) st")
       (auto simp: readSavedCipherParams_def)
  from r l have "case found of Some g \<Rightarrow> p = g \<and> st' = st1
      | None \<Rightarrow> p = p3_0 \<and> st' = say Critical [''Failed to check saved SQLCipher params''] st1"
    by (cases found) (auto simp: readSavedCipherParams_def)
  with readSavedLoop_probes[OF l] l
  show "\<exists>found probes st1.
         readSavedLoop eng hexKey (generationsBelow newParams) st = Some ((found, probes), st1)
         \<and> map fst probes = take (length probes) (generationsBelow newParams)
         \<and> list_all (\<lambda>(g, res). res = Unusable) (butlast probes)
         \<and> (case found of
              Some g \<Rightarrow> probes \<noteq> [] \<and> last probes = (g, Usable) \<and> p = g \<and> st' = st1
            | None \<Rightarrow>
                list_all (\<lambda>(g, res). res \<noteq> Usable) probes \<and> p = p3_0
                \<and> st' = say Critical [''Failed to check saved SQLCipher params''] st1)"
    by (cases found) auto
next
  assume l: "readSavedLoop eng hexKey (g # gs) s = Some ((found, probes), s')"
  then obtain res t where pr: "probeGeneration eng s hexKey g = Some (res, t)"
    by (cases "probeGeneration eng s hexKey g") auto
  then obtain keyed s1 where k: "setKey eng s hexKey = Some (keyed, s1)"
    by (cases "setKey eng s hexKey") (auto simp: probeGeneration_def)
  show "\<exists>keyed s1.
           setKey eng s hexKey = Some (keyed, s1)
           \<and> (if \<not> keyed then found = None \<and> probes = [(g, Aborted)] \<and> s' = s1
               else \<exists>configured s2.
                  setCipherParameters eng s1 g None = Some (configured, s2)
                  \<and> (if \<not> configured then found = None \<and> probes = [(g, Aborted)] \<and> s' = s2
                      else \<exists>usable s3.
                         testUsable eng s2 = Some (usable, s3)
                         \<and> (if usable then found = Some g \<and> probes = [(g, Usable)] \<and> s' = s3
                             else \<exists>rest. probes = (g, Unusable) # rest
                                \<and> readSavedLoop eng hexKey gs s3 = Some ((found, rest), s'))))"
  proof (cases keyed)
    case False
    with pr k l show ?thesis
      by (auto simp: probeGeneration_def)
  next
    case True
    note keyed = this
    with pr k obtain configured s2 where
      c: "setCipherParameters eng s1 g None = Some (configured, s2)"
      by (cases "setCipherParameters eng s1 g None") (auto simp: probeGeneration_def)
    show ?thesis
    proof (cases configured)
      case False
      with pr k c keyed l show ?thesis
        by (auto simp: probeGeneration_def)
    next
      case True
      note configured = this
      with pr k c keyed obtain usable s3 where
        u: "testUsable eng s2 = Some (usable, s3)"
        by (cases "testUsable eng s2") (auto simp: probeGeneration_def)
      show ?thesis
      proof (cases usable)
        case True
        with pr k c u keyed configured l show ?thesis
          by (auto simp: probeGeneration_def)
      next
        case False
        with pr k c u keyed configured have "res = Unusable" "t = s3"
          by (auto simp: probeGeneration_def)
        with pr l obtain rest where "probes = (g, Unusable) # rest"
          "readSavedLoop eng hexKey gs s3 = Some ((found, rest), s')"
          by (cases "readSavedLoop eng hexKey gs s3") auto
        with k c u keyed configured False show ?thesis
          by auto
      qed
    qed
  qed
qed (simp_all add: generationsBelow_def paramsIndex_def)

theorem C4_counterexample:
  "map_option fst
     (readSavedLoop toy ''ab'' (generationsBelow p4_0)
        (toy_store (toy_world_half\<lparr>faults := [''PRAGMA cipher_page_size = 1024'']\<rparr>)))
     = Some (None, [(p3_0, Aborted)])
   \<and> map_option fst
       (probeGeneration toy
          (toy_store (toy_world_half\<lparr>faults := [''PRAGMA cipher_page_size = 1024'']\<rparr>)) ''ab''
          halfUpgradedTo4)
     = Some Usable
   \<and> map_option fst
       (readSavedCipherParams toy
          (toy_store (toy_world_half\<lparr>faults := [''PRAGMA cipher_page_size = 1024'']\<rparr>)) ''ab''
          p4_0)
     = Some p3_0"
  by code_simp

theorem C4_witness:
  "map_option fst (readSavedCipherParams toy (toy_store toy_world_half) ''ab'' p4_0)
     = Some halfUpgradedTo4
   \<and> map_option fst (readSavedLoop toy ''ab'' (generationsBelow p4_0) (toy_store toy_world_half))
     = Some (Some halfUpgradedTo4, [(p3_0, Unusable), (halfUpgradedTo4, Usable)])
   \<and> (\<exists>s1 s2 s3.
         setKey toy (toy_store toy_world_half) ''ab'' = Some (True, s1)
         \<and> setCipherParameters toy s1 p3_0 None = Some (True, s2)
         \<and> testUsable toy s2 = Some (False, s3)
         \<and> map_option fst (readSavedLoop toy ''ab'' [halfUpgradedTo4] s3)
             = Some (Some halfUpgradedTo4, [(halfUpgradedTo4, Usable)]))"
proof -
  have a: "map_option fst (readSavedCipherParams toy (toy_store toy_world_half) ''ab'' p4_0)
     = Some halfUpgradedTo4"
    by code_simp
  have b: "map_option fst
      (readSavedLoop toy ''ab'' (generationsBelow p4_0) (toy_store toy_world_half))
     = Some (Some halfUpgradedTo4, [(p3_0, Unusable), (halfUpgradedTo4, Usable)])"
    by code_simp
  from a obtain st' where
    r: "readSavedCipherParams toy (toy_store toy_world_half) ''ab'' p4_0
       = Some (halfUpgradedTo4, st')"
    by (cases "readSavedCipherParams toy (toy_store toy_world_half) ''ab'' p4_0") auto
  note c4 = C4_read_saved_cipher_params
    [of toy "toy_store toy_world_half" "''ab''" p4_0 halfUpgradedTo4 st' "toy_store toy_world_half"
      p3_0 "[halfUpgradedTo4]" "Some halfUpgradedTo4" "[(p3_0, Unusable), (halfUpgradedTo4, Usable)]"]
  from c4 have g: "generationsBelow p4_0 = [p3_0, halfUpgradedTo4]"
    by blast
  from b obtain s' where
    l: "readSavedLoop toy ''ab'' (p3_0 # [halfUpgradedTo4]) (toy_store toy_world_half)
        = Some ((Some halfUpgradedTo4, [(p3_0, Unusable), (halfUpgradedTo4, Usable)]), s')"
    unfolding g
    by (cases "readSavedLoop toy ''ab'' [p3_0, halfUpgradedTo4] (toy_store toy_world_half)") auto
  from c4 [of s'] l
  have "\<exists>keyed s1.
           setKey toy (toy_store toy_world_half) ''ab'' = Some (keyed, s1)
           \<and> (if \<not> keyed then Some halfUpgradedTo4 = None
                 \<and> [(p3_0, Unusable), (halfUpgradedTo4, Usable)] = [(p3_0, Aborted)] \<and> s' = s1
               else \<exists>configured s2.
                  setCipherParameters toy s1 p3_0 None = Some (configured, s2)
                  \<and> (if \<not> configured then Some halfUpgradedTo4 = None
                        \<and> [(p3_0, Unusable), (halfUpgradedTo4, Usable)] = [(p3_0, Aborted)]
                        \<and> s' = s2
                      else \<exists>usable s3.
                         testUsable toy s2 = Some (usable, s3)
                         \<and> (if usable then Some halfUpgradedTo4 = Some p3_0
                               \<and> [(p3_0, Unusable), (halfUpgradedTo4, Usable)] = [(p3_0, Usable)]
                               \<and> s' = s3
                             else \<exists>rest. [(p3_0, Unusable), (halfUpgradedTo4, Usable)]
                                  = (p3_0, Unusable) # rest
                                \<and> readSavedLoop toy ''ab'' [halfUpgradedTo4] s3
                                    = Some ((Some halfUpgradedTo4, rest), s'))))"
    by blast
  then have "\<exists>s1 s2 s3.
         setKey toy (toy_store toy_world_half) ''ab'' = Some (True, s1)
         \<and> setCipherParameters toy s1 p3_0 None = Some (True, s2)
         \<and> testUsable toy s2 = Some (False, s3)
         \<and> map_option fst (readSavedLoop toy ''ab'' [halfUpgradedTo4] s3)
             = Some (Some halfUpgradedTo4, [(halfUpgradedTo4, Usable)])"
    by (auto split: if_splits)
  with a b show ?thesis
    by (simp only: simp_thms)
qed

lemma length_toHex: "length (toHex bs) = 2 * length bs"
  by (induction bs) (simp_all add: toHex_def)

lemma hexDigit_hex: "is_hex_digit (hexDigit n)"
proof -
  have "n mod 16 < length ''0123456789abcdef''" by simp
  then have "''0123456789abcdef'' ! (n mod 16) \<in> set ''0123456789abcdef''"
    by (rule nth_mem)
  then show ?thesis by (simp only: is_hex_digit_def hexDigit_def)
qed

lemma toHex_hex: "list_all is_hex_digit (toHex bs)"
  by (induction bs) (simp_all add: toHex_def hexDigit_hex)

text \<open>
  C5. With a key-derivation primitive that returns its 64-byte key object, the salted
  \<open>deriveKey\<close> returns the empty key exactly when the password is empty or the salt
  is not of the mandated length; otherwise the key is 64 lower-case hexadecimal digits.
  Both derivations return the empty key for the empty password.
\<close>

theorem C5_derive_key_empty_iff:
  "length (tox_pass_key_derive_with_salt eng password salt) = 64 \<longrightarrow>
     (fst (deriveKey eng password salt) = [] \<longleftrightarrow>
        password = [] \<or> length salt \<noteq> TOX_PASS_SALT_LENGTH)
     \<and> (password \<noteq> [] \<and> length salt = TOX_PASS_SALT_LENGTH \<longrightarrow>
          length (fst (deriveKey eng password salt)) = 64
          \<and> list_all is_hex_digit (fst (deriveKey eng password salt)))
     \<and> fst (deriveKey eng [] salt) = []
     \<and> deriveKey_unsalted eng [] = []"
proof
  assume l: "length (tox_pass_key_derive_with_salt eng password salt) = 64"
  then have k: "length (toHex (take 32 (drop 32 (tox_pass_key_derive_with_salt eng password salt)))) = 64"
    by (simp add: length_toHex)
  then have ne: "toHex (take 32 (drop 32 (tox_pass_key_derive_with_salt eng password salt))) \<noteq> []"
    by auto
  show "(fst (deriveKey eng password salt) = [] \<longleftrightarrow>
        password = [] \<or> length salt \<noteq> TOX_PASS_SALT_LENGTH)
     \<and> (password \<noteq> [] \<and> length salt = TOX_PASS_SALT_LENGTH \<longrightarrow>
          length (fst (deriveKey eng password salt)) = 64
          \<and> list_all is_hex_digit (fst (deriveKey eng password salt)))
     \<and> fst (deriveKey eng [] salt) = []
     \<and> deriveKey_unsalted eng [] = []"
    using k ne by (simp add: deriveKey_def deriveKey_unsalted_def toHex_hex)
qed

theorem C5_witness:
  "length (tox_pass_key_derive_with_salt toy ''pw'' toy_salt) = 64
   \<and> fst (deriveKey toy ''pw'' toy_salt)
       = ''7077303132333435363738396162636465663031323334353637383961626364''
   \<and> fst (deriveKey toy ''pw'' ''short'') = []
   \<and> deriveKey_unsalted toy [] = []"
proof -
  have a: "length (tox_pass_key_derive_with_salt toy ''pw'' toy_salt) = 64"
    by code_simp
  have b: "fst (deriveKey toy ''pw'' toy_salt)
       = ''7077303132333435363738396162636465663031323334353637383961626364''"
    by code_simp
  have c: "fst (deriveKey toy ''pw'' ''short'') = []"
    by code_simp
  from a C5_derive_key_empty_iff [of toy "''pw''" toy_salt]
  have "deriveKey_unsalted toy [] = []"
    by blast
  then show ?thesis
    using a b c by (simp only: simp_thms)
qed

lemma close_kept:
  "close eng st = Some st' \<Longrightarrow>
     path st' = path st \<and> currentSalt st' = currentSalt st
     \<and> currentHexKey st' = currentHexKey st"
proof -
  assume c: "close eng st = Some st'"
  then obtain st1 where p: "process eng st = Some st1"
    by (cases "process eng st") (auto simp: close_def)
  obtain r w1 where q: "sqlite3_close eng (world st1) = (r, w1)"
    by (cases "sqlite3_close eng (world st1)")
  from c p q have "st' = st1 \<or> st' = st1\<lparr>world := w1, sqlite := False\<rparr>
      \<or> st' = say Warning [''Error closing database:'', sqlite3_errmsg eng w1] (st1\<lparr>world := w1\<rparr>)"
    by (auto simp: close_def split: if_splits)
  with process_kept[OF p] show ?thesis
    by (auto simp: say_def)
qed





text \<open>
  C9. On an open store with an empty current key, \<open>setPassword\<close> with an empty
  password returns true. What it did then is drain the queue and delete a leftover
  \<open>.tmp\<close> file if there is one: the store stays open at its path with the empty key, and
  nothing is exported, swapped or reopened.
\<close>

theorem C9_set_empty_password_on_plaintext:
  "sqlite st \<and> currentHexKey st = [] \<and> process eng st = Some st1 \<longrightarrow>
     setPassword eng st [] = Some (True, removeStaleExport eng st1)
     \<and> sqlite (removeStaleExport eng st1)
     \<and> path (removeStaleExport eng st1) = path st
     \<and> currentHexKey (removeStaleExport eng st1) = []
     \<and> world (removeStaleExport eng st1) =
         (if file_exists eng (world st1) (path st @ ''.tmp'') then
            snd (file_remove eng (world st1) (path st @ ''.tmp''))
          else world st1)
     \<and> pendingTransactions (removeStaleExport eng st1) = pendingTransactions st1
     \<and> lastFinished (removeStaleExport eng st1) = lastFinished st1"
proof (intro impI)
  assume a: "sqlite st \<and> currentHexKey st = [] \<and> process eng st = Some st1"
  then have p: "process eng st = Some st1" by simp
  note k = process_kept[OF p]
  have s: "setPassword eng st [] = Some (True, removeStaleExport eng st1)"
    using a k by (simp add: setPassword_def removeStaleExport_def say_def)
  show "setPassword eng st [] = Some (True, removeStaleExport eng st1)
     \<and> sqlite (removeStaleExport eng st1)
     \<and> path (removeStaleExport eng st1) = path st
     \<and> currentHexKey (removeStaleExport eng st1) = []
     \<and> world (removeStaleExport eng st1) =
         (if file_exists eng (world st1) (path st @ ''.tmp'') then
            snd (file_remove eng (world st1) (path st @ ''.tmp''))
          else world st1)
     \<and> pendingTransactions (removeStaleExport eng st1) = pendingTransactions st1
     \<and> lastFinished (removeStaleExport eng st1) = lastFinished st1"
    using s a k by (simp add: removeStaleExport_def say_def)
qed

theorem C9_witness:
  "sqlite (toy_store (toy_world1\<lparr>files := files toy_world1 @ [(''db.tmp'', plain_file)]\<rparr>))
   \<and> currentHexKey
        (toy_store (toy_world1\<lparr>files := files toy_world1 @ [(''db.tmp'', plain_file)]\<rparr>)) = []
   \<and> process toy
        (toy_store (toy_world1\<lparr>files := files toy_world1 @ [(''db.tmp'', plain_file)]\<rparr>)) \<noteq> None
   \<and> map_option (\<lambda>(ok, s). (ok, path s, sqlite s, currentHexKey s, map fst (files (world s))))
        (setPassword toy
           (toy_store (toy_world1\<lparr>files := files toy_world1 @ [(''db.tmp'', plain_file)]\<rparr>)) [])
       = Some (True, ''db'', True, [], [''db''])"
proof -
  let ?st = "toy_store (toy_world1\<lparr>files := files toy_world1 @ [(''db.tmp'', plain_file)]\<rparr>)"
  have a: "sqlite ?st" and b: "currentHexKey ?st = []"
    by (simp_all add: toy_store_def)
  have c: "process toy ?st \<noteq> None"
    by code_simp
  have d: "map_option (\<lambda>(ok, s). (ok, path s, sqlite s, currentHexKey s, map fst (files (world s))))
        (setPassword toy ?st []) = Some (True, ''db'', True, [], [''db''])"
    by code_simp
  from c obtain st1 where "process toy ?st = Some st1"
    by blast
  with a b C9_set_empty_password_on_plaintext [of ?st toy st1]
  have "setPassword toy ?st [] = Some (True, removeStaleExport toy st1)"
    by blast
  then show ?thesis
    using a b c d by (simp only: simp_thms)
qed









lemma step_last:
  "(do { (ok, s) \<leftarrow> m; if \<not> ok then Some (False, s) else Some (True, g s) } = Some (True, st'))
     = (\<exists>s. m = Some (True, s) \<and> st' = g s)"
  by (cases m) (auto split: prod.splits)



















lemma close_closed:
  "close eng s = Some s' \<Longrightarrow> sqlite s' \<Longrightarrow> \<exists>w'. fst (sqlite3_close eng w') \<noteq> SQLITE_OK"
proof -
  assume c: "close eng s = Some s'" and o: "sqlite s'"
  from c obtain s1 where p: "process eng s = Some s1"
    by (cases "process eng s") (auto simp: close_def)
  obtain r w1 where q: "sqlite3_close eng (world s1) = (r, w1)"
    by (cases "sqlite3_close eng (world s1)")
  from c p q o have "r \<noteq> SQLITE_OK"
    by (auto simp: close_def split: if_splits)
  with q have "fst (sqlite3_close eng (world s1)) \<noteq> SQLITE_OK"
    by simp
  then show ?thesis
    by blast
qed

lemma setPassword_failed:
  "setPassword eng st password = Some (False, st') \<Longrightarrow> sqlite st \<Longrightarrow>
     \<exists>s. close eng s = Some st'"
  by (auto simp: setPassword_def split: if_splits option.splits prod.splits bind_splits)

text \<open>
  C10 (as amended). When the open with the salted key fails and, after the close and the attempt to
  copy the file to \<open>.bak\<close>, the open with the legacy key succeeds: if the copy failed,
  the constructed store is the one the legacy open left, and \<open>setPassword\<close> is not
  called; if the copy succeeded, the constructed store is what \<open>setPassword\<close> with the
  password left, with one more log line, a warning when it returned false. A
  \<open>setPassword\<close> that returned false has closed the store: on an engine whose
  \<open>sqlite3_close\<close> succeeds, the store is then not open.
\<close>

theorem C10_legacy_fallback:
  "open_db eng
       \<lparr>sqlite = False, path = p, currentSalt = salt,
        currentHexKey = fst (deriveKey eng password salt), pendingTransactions = [],
        world = w, logs = snd (deriveKey eng password salt), lastFinished = None\<rparr>
       p (fst (deriveKey eng password salt)) = Some (False, st1)
   \<and> close eng st1 = Some st2
   \<and> file_copy eng (world st2) (path st2) (path st2 @ ''.bak'') = (upgrade, w3)
   \<and> open_db eng
        ((if \<not> upgrade then
            say Debug [''Couldn't create the backup of the database, won't upgrade'']
              (st2\<lparr>world := w3\<rparr>)
          else st2\<lparr>world := w3\<rparr>)\<lparr>currentHexKey := deriveKey_unsalted eng password\<rparr>)
        (path st2) (deriveKey_unsalted eng password) = Some (True, st3)
   \<longrightarrow>
     (\<not> upgrade \<longrightarrow> RawDatabaseImpl eng w p password salt = Some st3)
   \<and> (upgrade \<longrightarrow>
        RawDatabaseImpl eng w p password salt =
          map_option
            (\<lambda>(upgraded, st4).
               if upgraded then say Debug [''Successfully upgraded to dynamic salt''] st4
               else say Warning [''Failed to set password with new salt''] st4)
            (setPassword eng st3 password))
   \<and> (sqlite st3 \<and> setPassword eng st3 password = Some (False, st4)
        \<and> (\<forall>w'. fst (sqlite3_close eng w') = SQLITE_OK) \<longrightarrow> \<not> sqlite st4)"
proof (intro impI)
  assume h: "open_db eng
       \<lparr>sqlite = False, path = p, currentSalt = salt,
        currentHexKey = fst (deriveKey eng password salt), pendingTransactions = [],
        world = w, logs = snd (deriveKey eng password salt), lastFinished = None\<rparr>
       p (fst (deriveKey eng password salt)) = Some (False, st1)
   \<and> close eng st1 = Some st2
   \<and> file_copy eng (world st2) (path st2) (path st2 @ ''.bak'') = (upgrade, w3)
   \<and> open_db eng
        ((if \<not> upgrade then
            say Debug [''Couldn't create the backup of the database, won't upgrade'']
              (st2\<lparr>world := w3\<rparr>)
          else st2\<lparr>world := w3\<rparr>)\<lparr>currentHexKey := deriveKey_unsalted eng password\<rparr>)
        (path st2) (deriveKey_unsalted eng password) = Some (True, st3)"
  then have o1: "open_db eng
       \<lparr>sqlite = False, path = p, currentSalt = salt,
        currentHexKey = fst (deriveKey eng password salt), pendingTransactions = [],
        world = w, logs = snd (deriveKey eng password salt), lastFinished = None\<rparr>
       p (fst (deriveKey eng password salt)) = Some (False, st1)"
    and cl: "close eng st1 = Some st2"
    and cp: "file_copy eng (world st2) (path st2) (path st2 @ ''.bak'') = (upgrade, w3)"
    by simp_all
  have a: "\<not> upgrade \<longrightarrow> RawDatabaseImpl eng w p password salt = Some st3"
  proof
    assume u: "\<not> upgrade"
    with h have o2: "open_db eng
        ((say Debug [''Couldn't create the backup of the database, won't upgrade'']
              (st2\<lparr>world := w3\<rparr>))\<lparr>currentHexKey := deriveKey_unsalted eng password\<rparr>)
        (path st2) (deriveKey_unsalted eng password) = Some (True, st3)"
      by simp
    show "RawDatabaseImpl eng w p password salt = Some st3"
      unfolding RawDatabaseImpl_def case_prod_unfold
      by (simp add: o1 cl cp o2 u)
  qed
  have b: "upgrade \<longrightarrow>
        RawDatabaseImpl eng w p password salt =
          map_option
            (\<lambda>(upgraded, st4).
               if upgraded then say Debug [''Successfully upgraded to dynamic salt''] st4
               else say Warning [''Failed to set password with new salt''] st4)
            (setPassword eng st3 password)"
  proof
    assume u: "upgrade"
    with h have o2: "open_db eng
        (st2\<lparr>world := w3, currentHexKey := deriveKey_unsalted eng password\<rparr>)
        (path st2) (deriveKey_unsalted eng password) = Some (True, st3)"
      by simp
    show "RawDatabaseImpl eng w p password salt =
          map_option
            (\<lambda>(upgraded, st4).
               if upgraded then say Debug [''Successfully upgraded to dynamic salt''] st4
               else say Warning [''Failed to set password with new salt''] st4)
            (setPassword eng st3 password)"
      unfolding RawDatabaseImpl_def case_prod_unfold
      by (cases "setPassword eng st3 password") (simp_all add: o1 cl cp o2 u)
  qed
  have c: "sqlite st3 \<and> setPassword eng st3 password = Some (False, st4)
        \<and> (\<forall>w'. fst (sqlite3_close eng w') = SQLITE_OK) \<longrightarrow> \<not> sqlite st4"
    using setPassword_failed close_closed by blast
  from a b c show
    "(\<not> upgrade \<longrightarrow> RawDatabaseImpl eng w p password salt = Some st3)
   \<and> (upgrade \<longrightarrow>
        RawDatabaseImpl eng w p password salt =
          map_option
            (\<lambda>(upgraded, st4).
               if upgraded then say Debug [''Successfully upgraded to dynamic salt''] st4
               else say Warning [''Failed to set password with new salt''] st4)
            (setPassword eng st3 password))
   \<and> (sqlite st3 \<and> setPassword eng st3 password = Some (False, st4)
        \<and> (\<forall>w'. fst (sqlite3_close eng w') = SQLITE_OK) \<longrightarrow> \<not> sqlite st4)"
    by blast
qed

theorem C10_counterexample:
  "map_option summary
     (RawDatabaseImpl toy (toy_world_legacy\<lparr>faults := [''PRAGMA rekey'']\<rparr>) ''db'' ''pw'' toy_salt)
   = Some (False, (Warning, [''Failed to set password with new salt'']), [''db.bak'', ''db''])"
  by code_simp

theorem C10_witness:
  "(\<exists>st3 st4.
      sqlite st3 \<and> setPassword toy st3 ''pw'' = Some (False, st4) \<and> \<not> sqlite st4
      \<and> RawDatabaseImpl toy (toy_world_legacy\<lparr>faults := [''PRAGMA rekey'']\<rparr>) ''db'' ''pw''
            toy_salt
          = Some (say Warning [''Failed to set password with new salt''] st4))
   \<and> (\<exists>st3.
        sqlite st3 \<and> currentHexKey st3 = deriveKey_unsalted toy ''pw''
        \<and> RawDatabaseImpl toy
             (toy_world_legacy\<lparr>files := files toy_world_legacy @ [(''db.bak'', plain_file)]\<rparr>)
             ''db'' ''pw'' toy_salt
           = Some st3)"
proof -
  let ?k = "fst (deriveKey toy ''pw'' toy_salt)"
  let ?o = "deriveKey_unsalted toy ''pw''"
  let ?st0 = "\<lambda>w. \<lparr>sqlite = False, path = ''db'', currentSalt = toy_salt, currentHexKey = ?k,
      pendingTransactions = [], world = w, logs = snd (deriveKey toy ''pw'' toy_salt),
      lastFinished = None\<rparr>"
  let ?w1 = "toy_world_legacy\<lparr>faults := [''PRAGMA rekey'']\<rparr>"
  let ?w2 = "toy_world_legacy\<lparr>files := files toy_world_legacy @ [(''db.bak'', plain_file)]\<rparr>"
  have cl: "\<forall>w'. fst (sqlite3_close toy w') = SQLITE_OK"
    by (simp add: toy_def)
  have e1: "do {
        (opened, st1) \<leftarrow> open_db toy (?st0 ?w1) ''db'' ?k;
        st2 \<leftarrow> close toy st1;
        (opened2, st3) \<leftarrow> open_db toy
           (st2\<lparr>world := snd (file_copy toy (world st2) (path st2) (path st2 @ ''.bak'')),
                currentHexKey := ?o\<rparr>) (path st2) ?o;
        (upgraded, st4) \<leftarrow> setPassword toy st3 ''pw'';
        Some (opened, fst (file_copy toy (world st2) (path st2) (path st2 @ ''.bak'')),
              opened2, sqlite st3, upgraded) }
      = Some (False, True, True, True, False)"
    by code_simp
  have e2: "do {
        (opened, st1) \<leftarrow> open_db toy (?st0 ?w2) ''db'' ?k;
        st2 \<leftarrow> close toy st1;
        (opened2, st3) \<leftarrow> open_db toy
           ((say Debug [''Couldn't create the backup of the database, won't upgrade'']
               (st2\<lparr>world := snd (file_copy toy (world st2) (path st2)
                                    (path st2 @ ''.bak''))\<rparr>))\<lparr>currentHexKey := ?o\<rparr>)
           (path st2) ?o;
        Some (opened, fst (file_copy toy (world st2) (path st2) (path st2 @ ''.bak'')),
              opened2, sqlite st3, currentHexKey st3 = ?o) }
      = Some (False, False, True, True, True)"
    by code_simp
  from e1 obtain st1 st2 st3 st4 where
    o1: "open_db toy (?st0 ?w1) ''db'' ?k = Some (False, st1)"
    and c1: "close toy st1 = Some st2"
    and u1: "fst (file_copy toy (world st2) (path st2) (path st2 @ ''.bak''))"
    and l1: "open_db toy
           (st2\<lparr>world := snd (file_copy toy (world st2) (path st2) (path st2 @ ''.bak'')),
                currentHexKey := ?o\<rparr>) (path st2) ?o = Some (True, st3)"
    and s3: "sqlite st3" and p: "setPassword toy st3 ''pw'' = Some (False, st4)"
    by (auto simp: bind_eq_Some_conv)
  from u1 have f1: "file_copy toy (world st2) (path st2) (path st2 @ ''.bak'')
      = (True, snd (file_copy toy (world st2) (path st2) (path st2 @ ''.bak'')))"
    by (simp add: prod_eq_iff)
  from C10_legacy_fallback [of toy "''db''" toy_salt "''pw''" ?w1 st1 st2 True
      "snd (file_copy toy (world st2) (path st2) (path st2 @ ''.bak''))" st3 st4]
    o1 c1 f1 l1 s3 p cl
  have r1: "\<not> sqlite st4
      \<and> RawDatabaseImpl toy ?w1 ''db'' ''pw'' toy_salt
          = Some (say Warning [''Failed to set password with new salt''] st4)"
    by simp
  from e2 obtain st1' st2' st3' where
    o2: "open_db toy (?st0 ?w2) ''db'' ?k = Some (False, st1')"
    and c2: "close toy st1' = Some st2'"
    and u2: "\<not> fst (file_copy toy (world st2') (path st2') (path st2' @ ''.bak''))"
    and l2: "open_db toy
           ((say Debug [''Couldn't create the backup of the database, won't upgrade'']
               (st2'\<lparr>world := snd (file_copy toy (world st2') (path st2')
                                    (path st2' @ ''.bak''))\<rparr>))\<lparr>currentHexKey := ?o\<rparr>)
           (path st2') ?o = Some (True, st3')"
    and s3': "sqlite st3'" and k3: "currentHexKey st3' = ?o"
    by (auto simp: bind_eq_Some_conv)
  from u2 have f2: "file_copy toy (world st2') (path st2') (path st2' @ ''.bak'')
      = (False, snd (file_copy toy (world st2') (path st2') (path st2' @ ''.bak'')))"
    by (simp add: prod_eq_iff)
  from C10_legacy_fallback [of toy "''db''" toy_salt "''pw''" ?w2 st1' st2' False
      "snd (file_copy toy (world st2') (path st2') (path st2' @ ''.bak''))" st3']
    o2 c2 f2 l2
  have r2: "RawDatabaseImpl toy ?w2 ''db'' ''pw'' toy_salt = Some st3'"
    by simp
  from r1 s3 p r2 s3' k3 show ?thesis
    by blast
qed




































end
